theory Spec2Isabelle
  imports Main "HOL-Library.AList"
begin

section \<open>Python values\<close>

text \<open>
  Both scripts work on parsed JSON. A JSON document is a value of \<open>json\<close>; a Python
  \<open>dict\<close> is the association list of its items in insertion order (keys distinct), so
  that \<open>d.get(k, v)\<close> is \<open>dict_get\<close>, \<open>k in d\<close> is \<open>has_key\<close>, \<open>d[k] = v\<close> is
  \<open>AList.update\<close> (an existing key keeps its place, a new one goes last) and
  \<open>d.pop(k, None)\<close> is \<open>AList.delete\<close>.

  A Python \<open>str\<close> is a \<open>string\<close>, one \<open>char\<close> for each character (code points up to
  255), so that \<open>length\<close> is Python's \<open>len\<close> and \<open>take\<close> is a slice \<open>s[:n]\<close>.
  A float \<open>JFloat m e\<close> stands for \<open>m * 2 ^ e\<close>; the code never computes with one.
\<close>

datatype json =
    JNull
  | JBool bool
  | JInt int
  | JFloat int int
  | JStr string
  | JArr "json list"
  | JObj "(string \<times> json) list"

type_synonym pydict = "(string \<times> json) list"

text \<open>The exceptions the scripts can run into; none of them is raised explicitly.\<close>

datatype py_error = TypeError | AttributeError | JSONDecodeError | RequestException string

definition dict_get :: "pydict \<Rightarrow> string \<Rightarrow> json \<Rightarrow> json" where
  "dict_get d k dflt = (case map_of d k of Some v \<Rightarrow> v | None \<Rightarrow> dflt)"

definition has_key :: "pydict \<Rightarrow> string \<Rightarrow> bool" where
  "has_key d k = (map_of d k \<noteq> None)"

text \<open>Truth value testing (\<open>if x\<close>, \<open>not x\<close>, \<open>bool(x)\<close>, \<open>x or y\<close>).\<close>

fun truthy :: "json \<Rightarrow> bool" where
  "truthy JNull = False"
| "truthy (JBool b) = b"
| "truthy (JInt i) = (i \<noteq> 0)"
| "truthy (JFloat m e) = (m \<noteq> 0)"
| "truthy (JStr s) = (s \<noteq> [])"
| "truthy (JArr xs) = (xs \<noteq> [])"
| "truthy (JObj d) = (d \<noteq> [])"

text \<open>\<open>needle in haystack\<close> on strings: the needle occurs as a contiguous block.\<close>

fun py_in :: "'a list \<Rightarrow> 'a list \<Rightarrow> bool" where
  "py_in xs [] = (xs = [])"
| "py_in xs (y # ys) = (take (length xs) (y # ys) = xs \<or> py_in xs ys)"

definition startswith :: "string \<Rightarrow> string \<Rightarrow> bool" where
  "startswith s p = (take (length p) s = p)"

text \<open>
  \<open>str.lower()\<close> on the characters a \<open>char\<close> can hold: the upper-case letters are
  \<open>A\<close> to \<open>Z\<close> (65 to 90) and the accented capitals 192 to 222 without the
  multiplication sign 215; each has its lower-case letter 32 places on.
\<close>

definition lower_char :: "char \<Rightarrow> char" where
  "lower_char c =
     (let n = (of_char c :: nat)
      in if (65 \<le> n \<and> n \<le> 90) \<or> (192 \<le> n \<and> n \<le> 222 \<and> n \<noteq> 215)
         then char_of (n + 32) else c)"

definition lower :: "string \<Rightarrow> string" where
  "lower s = map lower_char s"

section \<open>openrouter_to_github.py: the model resolver\<close>

record config =
  github_token :: string
  github_api_url :: string
  github_models_url :: string
  default_model :: string
  port :: int

text \<open>\<open>load_config\<close> when no environment variable is set.\<close>

definition load_config :: config where
  "load_config =
     \<lparr>github_token = '''',
      github_api_url = ''https://api.github.com'',
      github_models_url = ''https://models.inference.ai.azure.com'',
      default_model = ''claude-4.5-opus'',
      port = 8000\<rparr>"

text \<open>The dict literal of \<open>model_mapping\<close>, its items in the order they are written.\<close>

definition MODEL_MAPPING :: "(string \<times> string) list" where
  "MODEL_MAPPING =
     [(''gpt-4'', ''gpt-4o''),
      (''gpt-4-turbo'', ''gpt-4o''),
      (''gpt-4o'', ''gpt-4o''),
      (''gpt-4o-mini'', ''gpt-4o-mini''),
      (''gpt-3.5-turbo'', ''gpt-4o-mini''),
      (''o1'', ''o1''),
      (''o1-mini'', ''o1-mini''),
      (''o1-preview'', ''o1-preview''),
      (''claude-3-opus'', ''claude-3-opus''),
      (''claude-3-sonnet'', ''claude-3-sonnet''),
      (''claude-3-haiku'', ''claude-3-haiku''),
      (''claude-3.5-sonnet'', ''claude-3.5-sonnet''),
      (''opus-4.5'', ''claude-4.5-opus''),
      (''claude-4.5-opus'', ''claude-4.5-opus''),
      (''llama-3'', ''meta-llama-3-70b-instruct''),
      (''llama-3-70b'', ''meta-llama-3-70b-instruct''),
      (''llama-3.1-405b'', ''meta-llama-3.1-405b-instruct''),
      (''mistral-large'', ''mistral-large''),
      (''mistral-small'', ''mistral-small''),
      (''command-r'', ''cohere-command-r''),
      (''command-r-plus'', ''cohere-command-r-plus'')]"

text \<open>
  The \<open>for key, value in MODEL_MAPPING.items()\<close> loop of \<open>get_github_model\<close>:
  \<open>Some\<close> the value it returns, \<open>None\<close> when it runs to its end.
\<close>

fun scan_mapping :: "string \<Rightarrow> (string \<times> string) list \<Rightarrow> string option" where
  "scan_mapping requested_lower [] = None"
| "scan_mapping requested_lower ((key, val) # rest) =
     (if py_in (lower key) requested_lower \<or> py_in requested_lower (lower key)
      then Some val
      else scan_mapping requested_lower rest)"

definition get_github_model :: "string \<Rightarrow> config \<Rightarrow> string" where
  "get_github_model requested_model cfg =
     (case map_of MODEL_MAPPING requested_model of
        Some v \<Rightarrow> v
      | None \<Rightarrow>
          (case scan_mapping (lower requested_model) MODEL_MAPPING of
             Some v \<Rightarrow> v
           | None \<Rightarrow> if requested_model \<noteq> [] then requested_model else default_model cfg))"

text \<open>
  The test of step 2 in the spec's words: the lowercased key is a substring of the
  lowercased requested id, or contains it.
\<close>

definition substring_match :: "string \<Rightarrow> string \<times> string \<Rightarrow> bool" where
  "substring_match requested entry =
     (py_in (lower (fst entry)) (lower requested) \<or> py_in (lower requested) (lower (fst entry)))"

section \<open>The library and the transport\<close>

text \<open>
  The functions of Python's library that the scripts call and that are no part of the
  repository are parameters of the model: \<open>json.dumps\<close>, \<open>json.loads\<close> (\<open>None\<close> when it
  raises \<open>JSONDecodeError\<close>; \<open>resp.json()\<close> is \<open>json.loads\<close> of the body text) and the text
  \<open>str\<close> gives for a value that is no string. Every theorem below holds for all of them.
  \<open>json.loads\<close> is taken to return a document or to raise \<open>JSONDecodeError\<close>, nothing
  else, and the body text of an answer to be readable once the upstream has answered.
\<close>

record stdlib =
  json_dumps :: "json \<Rightarrow> string"
  json_loads :: "string \<Rightarrow> json option"
  py_repr :: "json \<Rightarrow> string"

definition py_str :: "stdlib \<Rightarrow> json \<Rightarrow> string" where
  "py_str L x = (case x of JStr s \<Rightarrow> s | _ \<Rightarrow> py_repr L x)"

text \<open>
  What \<open>for x in v\<close> runs over: the elements of a list, the characters of a string, the
  keys of a dict; any other JSON value is not iterable.
\<close>

fun py_iter :: "json \<Rightarrow> py_error + json list" where
  "py_iter (JArr xs) = Inr xs"
| "py_iter (JStr s) = Inr (map (\<lambda>c. JStr [c]) s)"
| "py_iter (JObj d) = Inr (map (\<lambda>kv. JStr (fst kv)) d)"
| "py_iter JNull = Inl TypeError"
| "py_iter (JBool b) = Inl TypeError"
| "py_iter (JInt i) = Inl TypeError"
| "py_iter (JFloat m e) = Inl TypeError"

text \<open>\<open>len(v)\<close>: a list, a string and a dict have a length; any other JSON value has none.\<close>

fun py_len :: "json \<Rightarrow> py_error + nat" where
  "py_len (JArr xs) = Inr (length xs)"
| "py_len (JStr s) = Inr (length s)"
| "py_len (JObj d) = Inr (length d)"
| "py_len JNull = Inl TypeError"
| "py_len (JBool b) = Inl TypeError"
| "py_len (JInt i) = Inl TypeError"
| "py_len (JFloat m e) = Inl TypeError"

text \<open>
  The first \<open>m.get(...)\<close> on every element of \<open>messages\<close>: an element that is no dict has
  no \<open>get\<close>. From then on the messages are dicts.
\<close>

fun as_dicts :: "json list \<Rightarrow> py_error + pydict list" where
  "as_dicts [] = Inr []"
| "as_dicts (JObj d # ms) = (case as_dicts ms of Inl e \<Rightarrow> Inl e | Inr ds \<Rightarrow> Inr (d # ds))"
| "as_dicts (m # ms) = Inl AttributeError"

text \<open>
  The upstream API as the transport (\<open>requests.post\<close>) shows it: the call raises, or
  answers with a status code, the body text and, when the body is read as a stream, the
  lines of \<open>iter_lines\<close>. A line is its text, or \<open>Undecodable\<close> when its (non-empty) bytes
  are no UTF-8; \<open>broken\<close> is \<open>Some\<close> the description of the exception \<open>iter_lines\<close> raises
  after the last line, \<open>None\<close> when the stream just ends. The strings of \<open>Unreachable\<close> and
  \<open>Undecodable\<close> are \<open>str(e)\<close> of the exception.
\<close>

datatype line = Line string | Undecodable string

record response =
  status_code :: nat
  resp_text :: string
  lines :: "line list"
  broken :: "string option"

datatype upstream = Unreachable string | Answered response

text \<open>
  What a handler returns to Flask: \<open>Response(text, status=...)\<close>, \<open>jsonify(obj)\<close> with
  its status, or an event stream: the frames the generator yields and, when the
  generator raises, \<open>Some\<close> the exception's text.
\<close>

datatype reply =
    Raw nat string
  | Jsonify nat json
  | EventStream "string list" "string option"

section \<open>github_proxy.py: the request\<close>

definition MODEL_MAP :: "(string \<times> string) list" where
  "MODEL_MAP =
     [(''gpt-4o'', ''gpt-4o''),
      (''gpt-4o-mini'', ''gpt-4o-mini''),
      (''gpt-4'', ''gpt-4o''),
      (''gpt-3.5-turbo'', ''gpt-4o-mini''),
      (''o1'', ''o1''),
      (''o1-mini'', ''o1-mini''),
      (''o1-preview'', ''o1-preview''),
      (''claude-3.5-sonnet'', ''claude-3-5-sonnet''),
      (''claude-3-5-sonnet'', ''claude-3-5-sonnet'')]"

definition estimate_tokens :: "stdlib \<Rightarrow> json \<Rightarrow> nat" where
  "estimate_tokens L txt = length (py_str L txt) div 4"

definition truncation_marker :: string where
  "truncation_marker = [CHR 0x0A, CHR 0x0A] @ ''[System prompt truncated for token limits]''"

text \<open>
  Strategy 1 of \<open>truncate_request\<close>. \<open>messages[0]["content"] = truncated\<close> writes into the
  first message, which the list in \<open>data\<close> holds; the result is that list afterwards.
  Slicing a content that is no string and concatenating a string to it is a
  \<open>TypeError\<close> (for a dict, from Python 3.12 on, a \<open>KeyError\<close>).
\<close>

definition truncate_system_prompt :: "stdlib \<Rightarrow> pydict list \<Rightarrow> py_error + pydict list" where
  "truncate_system_prompt L messages =
     (case messages of
        [] \<Rightarrow> Inr messages
      | m0 # rest \<Rightarrow>
          if dict_get m0 ''role'' JNull = JStr ''system'' then
            (let system_content = dict_get m0 ''content'' (JStr '''');
                 system_tokens = estimate_tokens L system_content
             in if system_tokens > 3000 then
                  (case system_content of
                     JStr s \<Rightarrow>
                       Inr (AList.update ''content'' (JStr (take 12000 s @ truncation_marker)) m0
                            # rest)
                   | _ \<Rightarrow> Inl TypeError)
                else Inr messages)
          else Inr messages)"

text \<open>Strategy 2: the messages with role system, then \<open>messages[-5:]\<close>.\<close>

definition keep_recent :: "pydict list \<Rightarrow> pydict list" where
  "keep_recent messages =
     (let system_msg = filter (\<lambda>m. dict_get m ''role'' JNull = JStr ''system'') messages;
          recent_msgs = drop (length messages - 5) messages
      in system_msg @ recent_msgs)"

text \<open>Strategy 3: \<open>tools[:10]\<close>; a list and a string can be sliced, a dict cannot.\<close>

fun first_ten :: "json \<Rightarrow> py_error + json" where
  "first_ten (JArr ts) = Inr (JArr (take 10 ts))"
| "first_ten (JStr s) = Inr (JStr (take 10 s))"
| "first_ten t = Inl TypeError"

definition truncate_request :: "stdlib \<Rightarrow> pydict \<Rightarrow> nat \<Rightarrow> py_error + pydict" where
  "truncate_request L data max_tokens =
     (let messages = dict_get data ''messages'' (JArr []);
          tools = dict_get data ''tools'' (JArr [])
      in case py_iter messages of Inl e \<Rightarrow> Inl e | Inr elems \<Rightarrow>
         case as_dicts elems of Inl e \<Rightarrow> Inl e | Inr msgs \<Rightarrow>
         case py_iter tools of Inl e \<Rightarrow> Inl e | Inr tool_elems \<Rightarrow>
         let msg_tokens =
               (\<Sum>m\<leftarrow>msgs. estimate_tokens L (dict_get m ''content'' (JStr '''')) + 10);
             tool_tokens = (\<Sum>t\<leftarrow>tool_elems. estimate_tokens L (JStr (json_dumps L t)));
             total = msg_tokens + tool_tokens
         in if total \<le> max_tokens then Inr data
            else
              case truncate_system_prompt L msgs of Inl e \<Rightarrow> Inl e | Inr msgs1 \<Rightarrow>
              let data1 = (if msgs = [] then data
                           else AList.update ''messages'' (JArr (map JObj msgs1)) data);
                  data2 = (if length msgs1 > 6
                           then AList.update ''messages'' (JArr (map JObj (keep_recent msgs1))) data1
                           else data1)
              in if length tool_elems > 10
                 then (case first_ten tools of
                         Inl e \<Rightarrow> Inl e
                       | Inr ts \<Rightarrow> Inr (AList.update ''tools'' ts data2))
                 else Inr data2)"

text \<open>
  \<open>MODEL_MAP.get(requested_model, requested_model)\<close>: a list or a dict is unhashable; any
  other value that is no key of the map comes back as it is.
\<close>

definition map_model :: "json \<Rightarrow> py_error + json" where
  "map_model requested_model =
     (case requested_model of
        JStr s \<Rightarrow> Inr (case map_of MODEL_MAP s of Some v \<Rightarrow> JStr v | None \<Rightarrow> requested_model)
      | JArr xs \<Rightarrow> Inl TypeError
      | JObj d \<Rightarrow> Inl TypeError
      | _ \<Rightarrow> Inr requested_model)"

text \<open>
  \<open>chat_completions\<close> of github\_proxy.py up to the call of the response function, for a
  POST whose body is the dict \<open>data\<close>: the requested model, the stream flag and the
  payload that goes upstream. Of the four \<open>print\<close> calls before \<open>truncate_request\<close>, the
  last two take \<open>len\<close> of the messages and of the tools, and raise when one has no length.
\<close>

definition prepare_request :: "stdlib \<Rightarrow> pydict \<Rightarrow> py_error + (json \<times> json \<times> pydict)" where
  "prepare_request L data =
     (let requested_model = dict_get data ''model'' (JStr ''gpt-4o'')
      in case map_model requested_model of Inl e \<Rightarrow> Inl e | Inr github_model \<Rightarrow>
         let data1 = AList.update ''model'' github_model data;
             is_streaming = dict_get data1 ''stream'' (JBool False);
             data2 = AList.delete ''store'' data1
         in case py_len (dict_get data2 ''messages'' (JArr [])) of Inl e \<Rightarrow> Inl e | Inr n \<Rightarrow>
            case py_len (dict_get data2 ''tools'' (JArr [])) of Inl e \<Rightarrow> Inl e | Inr k \<Rightarrow>
            case truncate_request L data2 6000 of
              Inl e \<Rightarrow> Inl e
            | Inr data3 \<Rightarrow> Inr (requested_model, is_streaming, data3))"

section \<open>github_proxy.py: the response\<close>

text \<open>
  \<open>if "model" in result: result["model"] = model\<close> on whatever \<open>resp.json()\<close> gives: a
  dict is updated when it has the key; \<open>in\<close> on a list or a string is a membership and a
  substring test, and the assignment that follows a positive one raises; \<open>in\<close> on any
  other value raises.
\<close>

fun rewrite_model :: "json \<Rightarrow> json \<Rightarrow> py_error + json" where
  "rewrite_model (JObj d) model =
     (if has_key d ''model'' then Inr (JObj (AList.update ''model'' model d)) else Inr (JObj d))"
| "rewrite_model (JArr xs) model = (if JStr ''model'' \<in> set xs then Inl TypeError else Inr (JArr xs))"
| "rewrite_model (JStr s) model = (if py_in ''model'' s then Inl TypeError else Inr (JStr s))"
| "rewrite_model result model = Inl TypeError"

definition non_streaming_response ::
    "stdlib \<Rightarrow> (pydict \<Rightarrow> upstream) \<Rightarrow> pydict \<Rightarrow> json \<Rightarrow> py_error + reply" where
  "non_streaming_response L post data model =
     (case post data of
        Unreachable msg \<Rightarrow> Inl (RequestException msg)
      | Answered resp \<Rightarrow>
          if status_code resp \<noteq> 200 then Inr (Raw (status_code resp) (resp_text resp))
          else
            (case json_loads L (resp_text resp) of
               None \<Rightarrow> Inl JSONDecodeError
             | Some result \<Rightarrow>
                 (case rewrite_model result model of
                    Inl e \<Rightarrow> Inl e
                  | Inr result' \<Rightarrow> Inr (Jsonify 200 result'))))"

text \<open>The decimal digits of a status code, as an f-string prints it.\<close>

fun str_nat :: "nat \<Rightarrow> string" where
  "str_nat n =
     (if n < 10 then [''0123456789'' ! n]
      else str_nat (n div 10) @ [''0123456789'' ! (n mod 10)])"

fun type_name :: "json \<Rightarrow> string" where
  "type_name JNull = ''NoneType''"
| "type_name (JBool b) = ''bool''"
| "type_name (JInt i) = ''int''"
| "type_name (JFloat m e) = ''float''"
| "type_name (JStr s) = ''str''"
| "type_name (JArr xs) = ''list''"
| "type_name (JObj d) = ''dict''"

text \<open>\<open>str(e)\<close> of the \<open>AttributeError\<close> that \<open>parsed.get\<close> raises when \<open>parsed\<close> is no dict.\<close>

definition no_attribute_get :: "json \<Rightarrow> string" where
  "no_attribute_get x = [CHR 0x27] @ type_name x @ [CHR 0x27] @ '' object has no attribute ''
     @ [CHR 0x27] @ ''get'' @ [CHR 0x27]"

text \<open>A frame \<open>f"data: {json.dumps(chunk)}\n\n"\<close> and the frame \<open>"data: [DONE]\n\n"\<close>.\<close>

definition sse :: "stdlib \<Rightarrow> pydict \<Rightarrow> string" where
  "sse L chunk = ''data: '' @ json_dumps L (JObj chunk) @ [CHR 0x0A, CHR 0x0A]"

definition done_frame :: string where
  "done_frame = ''data: [DONE]'' @ [CHR 0x0A, CHR 0x0A]"

definition error_chunk :: "string \<Rightarrow> int \<Rightarrow> json \<Rightarrow> string \<Rightarrow> pydict" where
  "error_chunk chunk_id created model content =
     [(''id'', JStr chunk_id),
      (''object'', JStr ''chat.completion.chunk''),
      (''created'', JInt created),
      (''model'', model),
      (''choices'',
         JArr [JObj [(''index'', JInt 0),
                     (''delta'', JObj [(''content'', JStr content)]),
                     (''finish_reason'', JStr ''stop'')]])]"

definition chunk_data :: "string \<Rightarrow> int \<Rightarrow> json \<Rightarrow> json \<Rightarrow> pydict \<Rightarrow> pydict" where
  "chunk_data chunk_id created model choices parsed =
     (let chunk = [(''id'', JStr chunk_id),
                   (''object'', JStr ''chat.completion.chunk''),
                   (''created'', JInt created),
                   (''model'', model),
                   (''choices'', choices)]
      in case map_of parsed ''usage'' of
           Some usage \<Rightarrow> AList.update ''usage'' usage chunk
         | None \<Rightarrow> chunk)"

definition yield :: "string \<Rightarrow> string list \<times> string option \<Rightarrow> string list \<times> string option" where
  "yield frame rest = (frame # fst rest, snd rest)"

text \<open>
  The \<open>for line in resp.iter_lines()\<close> loop of \<open>generate\<close>: the frames it yields and, when
  an exception leaves the loop, \<open>Some\<close> its text. \<open>break\<close> after the sentinel ends the
  loop; \<open>continue\<close> and the swallowed \<open>JSONDecodeError\<close> go on with the next line.
\<close>

fun forward_lines ::
    "stdlib \<Rightarrow> string \<Rightarrow> int \<Rightarrow> json \<Rightarrow> line list \<Rightarrow> string option
      \<Rightarrow> string list \<times> string option" where
  "forward_lines L chunk_id created model [] ending = ([], ending)"
| "forward_lines L chunk_id created model (Undecodable msg # rest) ending = ([], Some msg)"
| "forward_lines L chunk_id created model (Line l # rest) ending =
     (if l = [] then forward_lines L chunk_id created model rest ending
      else if startswith l ''data: '' then
        (if drop 6 l = ''[DONE]'' then ([done_frame], None)
         else
           (case json_loads L (drop 6 l) of
              None \<Rightarrow> forward_lines L chunk_id created model rest ending
            | Some (JObj parsed) \<Rightarrow>
                (if \<not> truthy (dict_get parsed ''choices'' (JArr []))
                 then forward_lines L chunk_id created model rest ending
                 else yield
                        (sse L (chunk_data chunk_id created model
                                  (dict_get parsed ''choices'' (JArr [])) parsed))
                        (forward_lines L chunk_id created model rest ending))
            | Some parsed \<Rightarrow> ([], Some (no_attribute_get parsed))))
      else forward_lines L chunk_id created model rest ending)"

text \<open>
  \<open>generate\<close>: the frames of one streaming response. \<open>chunk_id\<close> and \<open>created\<close> are the
  random id and the clock reading taken at its start.
\<close>

definition generate ::
    "stdlib \<Rightarrow> (pydict \<Rightarrow> upstream) \<Rightarrow> pydict \<Rightarrow> json \<Rightarrow> string \<Rightarrow> int \<Rightarrow> string list" where
  "generate L post data model chunk_id created =
     (case post data of
        Unreachable msg \<Rightarrow>
          [sse L (error_chunk chunk_id created model (''Proxy error: '' @ msg)), done_frame]
      | Answered resp \<Rightarrow>
          if status_code resp \<noteq> 200 then
            [sse L (error_chunk chunk_id created model (''Error: '' @ str_nat (status_code resp))),
             done_frame]
          else
            (case forward_lines L chunk_id created model (lines resp) (broken resp) of
               (frames, None) \<Rightarrow> frames
             | (frames, Some msg) \<Rightarrow>
                 frames @
                 [sse L (error_chunk chunk_id created model (''Proxy error: '' @ msg)),
                  done_frame]))"

definition proxy_stream_response ::
    "stdlib \<Rightarrow> (pydict \<Rightarrow> upstream) \<Rightarrow> pydict \<Rightarrow> json \<Rightarrow> string \<Rightarrow> int \<Rightarrow> reply" where
  "proxy_stream_response L post data model chunk_id created =
     EventStream (generate L post data model chunk_id created) None"

text \<open>
  \<open>chat_completions\<close> of github\_proxy.py for a POST with the parsed body \<open>body\<close>; a
  body that is no dict has no \<open>get\<close>. \<open>Inl\<close> is an exception that leaves the handler.
\<close>

definition proxy_chat_completions ::
    "stdlib \<Rightarrow> (pydict \<Rightarrow> upstream) \<Rightarrow> string \<Rightarrow> int \<Rightarrow> json \<Rightarrow> py_error + reply" where
  "proxy_chat_completions L post chunk_id created body =
     (case body of
        JObj data \<Rightarrow>
          (case prepare_request L data of
             Inl e \<Rightarrow> Inl e
           | Inr (requested_model, is_streaming, data') \<Rightarrow>
               if truthy is_streaming
               then Inr (proxy_stream_response L post data' requested_model chunk_id created)
               else non_streaming_response L post data' requested_model)
      | _ \<Rightarrow> Inl AttributeError)"

section \<open>openrouter_to_github.py: request and response\<close>

definition passthrough_keys :: "string list" where
  "passthrough_keys =
     [''temperature'', ''max_tokens'', ''top_p'', ''stream'', ''stop'',
      ''presence_penalty'', ''frequency_penalty'']"

text \<open>The loop \<open>for key in passthrough_keys\<close> of \<open>transform_request\<close>.\<close>

fun copy_keys :: "string list \<Rightarrow> pydict \<Rightarrow> pydict \<Rightarrow> pydict" where
  "copy_keys [] openai_request github_request = github_request"
| "copy_keys (key # keys) openai_request github_request =
     copy_keys keys openai_request
       (case map_of openai_request key of
          Some v \<Rightarrow> AList.update key v github_request
        | None \<Rightarrow> github_request)"

text \<open>
  \<open>get_github_model\<close> as \<open>transform_request\<close> calls it, on whatever JSON value the request
  has for \<open>model\<close>: a list or a dict is unhashable, any other value that is no string
  has no \<open>lower\<close>.
\<close>

definition resolve_requested :: "json \<Rightarrow> config \<Rightarrow> py_error + string" where
  "resolve_requested requested cfg =
     (case requested of
        JStr s \<Rightarrow> Inr (get_github_model s cfg)
      | JArr xs \<Rightarrow> Inl TypeError
      | JObj d \<Rightarrow> Inl TypeError
      | _ \<Rightarrow> Inl AttributeError)"

definition transform_request :: "pydict \<Rightarrow> config \<Rightarrow> py_error + pydict" where
  "transform_request openai_request cfg =
     (case resolve_requested (dict_get openai_request ''model'' (JStr (default_model cfg))) cfg of
        Inl e \<Rightarrow> Inl e
      | Inr github_model \<Rightarrow>
          Inr (copy_keys passthrough_keys openai_request
                 [(''messages'', dict_get openai_request ''messages'' (JArr [])),
                  (''model'', JStr github_model)]))"

text \<open>
  \<open>stream_response\<close> of openrouter\_to\_github.py: it yields the data lines as they come
  and catches nothing.
\<close>

fun router_stream_response :: "line list \<Rightarrow> string option \<Rightarrow> string list \<times> string option" where
  "router_stream_response [] ending = ([], ending)"
| "router_stream_response (Undecodable msg # rest) ending = ([], Some msg)"
| "router_stream_response (Line l # rest) ending =
     (if l = [] then router_stream_response rest ending
      else if startswith l ''data: ''
      then yield (l @ [CHR 0x0A, CHR 0x0A]) (router_stream_response rest ending)
      else router_stream_response rest ending)"

definition api_error_body :: "string \<Rightarrow> nat \<Rightarrow> json" where
  "api_error_body txt status =
     JObj [(''error'',
            JObj [(''message'', JStr (''GitHub Models API error: '' @ txt)),
                  (''type'', JStr ''api_error''),
                  (''code'', JInt (int status))])]"

definition error_body :: "string \<Rightarrow> string \<Rightarrow> json" where
  "error_body message kind =
     JObj [(''error'', JObj [(''message'', JStr message), (''type'', JStr kind)])]"

text \<open>
  \<open>chat_completions\<close> of openrouter\_to\_github.py; \<open>body\<close> is what
  \<open>request.get_json(silent=True)\<close> gives, \<open>JNull\<close> when the body is no JSON.
\<close>

definition router_chat_completions ::
    "stdlib \<Rightarrow> config \<Rightarrow> (pydict \<Rightarrow> upstream) \<Rightarrow> json \<Rightarrow> py_error + reply" where
  "router_chat_completions L cfg post body =
     (if github_token cfg = []
      then Inr (Jsonify 500 (error_body ''GITHUB_TOKEN not set'' ''configuration_error''))
      else if \<not> truthy body
      then Inr (Jsonify 400 (error_body ''Invalid JSON body'' ''invalid_request_error''))
      else
        (case body of
           JObj openai_request \<Rightarrow>
             (case transform_request openai_request cfg of
                Inl e \<Rightarrow> Inl e
              | Inr github_request \<Rightarrow>
                  (case post github_request of
                     Unreachable msg \<Rightarrow> Inl (RequestException msg)
                   | Answered resp \<Rightarrow>
                       if status_code resp \<noteq> 200
                       then Inr (Jsonify (status_code resp)
                                   (api_error_body (resp_text resp) (status_code resp)))
                       else if truthy (dict_get github_request ''stream'' JNull)
                       then Inr (case router_stream_response (lines resp) (broken resp) of
                                   (frames, raised) \<Rightarrow> EventStream frames raised)
                       else
                         (case json_loads L (resp_text resp) of
                            None \<Rightarrow> Inl JSONDecodeError
                          | Some result \<Rightarrow> Inr (Jsonify 200 result))))
         | _ \<Rightarrow> Inl AttributeError))"

section \<open>The spec's words\<close>

text \<open>
  A ChatRequest of the spec's data model: \<open>messages\<close> is a list of dicts whose content,
  when they have one, is a string, and \<open>tools\<close>, when the request has it, is a list.
\<close>

definition is_text :: "json \<Rightarrow> bool" where
  "is_text x = (case x of JStr s \<Rightarrow> True | _ \<Rightarrow> False)"

definition chat_request :: "pydict \<Rightarrow> pydict list \<Rightarrow> json list \<Rightarrow> bool" where
  "chat_request data msgs tools =
     (dict_get data ''messages'' (JArr []) = JArr (map JObj msgs) \<and>
      dict_get data ''tools'' (JArr []) = JArr tools \<and>
      list_all (\<lambda>m. is_text (dict_get m ''content'' (JStr ''''))) msgs)"

text \<open>
  The estimate of the spec: every message gives the length of its content divided by 4,
  rounded down, plus 10; every tool the length of its JSON text divided by 4.
\<close>

definition token_estimate :: "stdlib \<Rightarrow> pydict list \<Rightarrow> json list \<Rightarrow> nat" where
  "token_estimate L msgs tools =
     (\<Sum>m\<leftarrow>msgs. length (py_str L (dict_get m ''content'' (JStr ''''))) div 4 + 10) +
     (\<Sum>t\<leftarrow>tools. length (json_dumps L t) div 4)"

text \<open>
  What a frame of github\_proxy.py's stream is: the sentinel, or the JSON text of a chunk
  whose \<open>model\<close> is the given one and whose \<open>choices\<close> are not empty.
\<close>

definition carries :: "stdlib \<Rightarrow> json \<Rightarrow> string \<Rightarrow> bool" where
  "carries L model frame =
     (frame = done_frame \<or>
      (\<exists>chunk choices. frame = sse L chunk \<and> map_of chunk ''model'' = Some model \<and>
         map_of chunk ''choices'' = Some choices \<and> truthy choices))"

section \<open>Example requests and upstream answers\<close>

definition user_message :: "string \<Rightarrow> pydict" where
  "user_message c = [(''role'', JStr ''user''), (''content'', JStr c)]"

definition system_message :: "string \<Rightarrow> pydict" where
  "system_message c = [(''role'', JStr ''system''), (''content'', JStr c)]"

definition hello_request :: pydict where
  "hello_request =
     [(''model'', JStr ''gpt-4''),
      (''messages'', JArr [JObj (user_message ''Hello'')]),
      (''max_tokens'', JInt 64),
      (''user'', JStr ''u1''),
      (''store'', JBool True)]"

definition hello_stream_request :: pydict where
  "hello_stream_request = hello_request @ [(''stream'', JBool True)]"

definition seven_turns :: "pydict list" where
  "seven_turns =
     [user_message ''m1'', user_message ''m2'', user_message ''m3'', user_message ''m4'',
      user_message ''m5'', user_message ''m6'', user_message ''m7'']"

text \<open>A system prompt of 24000 characters, so 6000 tokens, before seven short turns.\<close>

definition long_system_request :: pydict where
  "long_system_request =
     [(''model'', JStr ''gpt-4o''),
      (''messages'',
         JArr (map JObj (system_message (replicate 24000 (CHR ''x'')) # seven_turns)))]"

text \<open>A long first turn, and a system message among the last five of eight.\<close>

definition late_system_turns :: "pydict list" where
  "late_system_turns =
     [user_message (replicate 24000 (CHR ''x'')), user_message ''m2'', user_message ''m3'',
      user_message ''m4'', user_message ''m5'', system_message ''be brief'',
      user_message ''m7'', user_message ''m8'']"

definition late_system_request :: pydict where
  "late_system_request =
     [(''model'', JStr ''gpt-4o''), (''messages'', JArr (map JObj late_system_turns))]"

definition example_choice :: json where
  "example_choice = JObj [(''index'', JInt 0), (''delta'', JObj [(''content'', JStr ''Hi'')])]"

definition example_tool :: json where
  "example_tool = JObj [(''type'', JStr ''function'')]"

definition tool_text :: string where
  \<open>tool_text = ''{"type": "function"}''\<close>

text \<open>One long turn and twelve tools.\<close>

definition tools_request :: pydict where
  "tools_request =
     [(''model'', JStr ''gpt-4o''),
      (''messages'', JArr [JObj (user_message (replicate 24000 (CHR ''x'')))]),
      (''tools'', JArr (replicate 12 example_tool))]"

definition chunk_text :: string where
  \<open>chunk_text = ''{"choices": [{"index": 0, "delta": {"content": "Hi"}}]}''\<close>

definition empty_chunk_text :: string where
  \<open>empty_chunk_text = ''{"choices": []}''\<close>

definition completion_text :: string where
  \<open>completion_text = ''{"model": "gpt-4o", "choices": []}''\<close>

definition frame_text :: string where
  \<open>frame_text = ''{"id": "chatcmpl-0", "object": "chat.completion.chunk", "created": 0, "model": "gpt-4", "choices": [{"index": 0, "delta": {"content": "Hi"}}]}''\<close>

text \<open>
  \<open>json.loads\<close>, \<open>json.dumps\<close> and \<open>str\<close> on the documents of the examples; what they give
  elsewhere is not read by any example.
\<close>

definition example_loads :: "string \<Rightarrow> json option" where
  "example_loads =
     map_of
       [(chunk_text, JObj [(''choices'', JArr [example_choice])]),
        (empty_chunk_text, JObj [(''choices'', JArr [])]),
        (completion_text, JObj [(''model'', JStr ''gpt-4o''), (''choices'', JArr [])])]"

definition example_dumps :: "json \<Rightarrow> string" where
  "example_dumps j =
     (if j = JObj [(''id'', JStr ''chatcmpl-0''),
                   (''object'', JStr ''chat.completion.chunk''),
                   (''created'', JInt 0),
                   (''model'', JStr ''gpt-4''),
                   (''choices'', JArr [example_choice])]
      then frame_text
      else if j = example_tool then tool_text
      else ''null'')"

definition example_repr :: "json \<Rightarrow> string" where
  "example_repr x = (if x = JNull then ''None'' else ''[]'')"

definition example_lib :: stdlib where
  "example_lib =
     \<lparr>json_dumps = example_dumps, json_loads = example_loads, py_repr = example_repr\<rparr>"

definition example_config :: config where
  "example_config = load_config\<lparr>github_token := ''ghp_example''\<rparr>"

text \<open>Upstream answers: a stream of three lines, a stream that ends without the sentinel,
  a completion, and a 429.\<close>

definition streaming_post :: "pydict \<Rightarrow> upstream" where
  "streaming_post payload =
     Answered \<lparr>status_code = 200, resp_text = '''',
       lines = [Line (''data: '' @ chunk_text), Line (''data: '' @ empty_chunk_text),
                Line ''data: [DONE]''],
       broken = None\<rparr>"

definition no_sentinel_post :: "pydict \<Rightarrow> upstream" where
  "no_sentinel_post payload =
     Answered \<lparr>status_code = 200, resp_text = '''',
       lines = [Line (''data: '' @ chunk_text)], broken = None\<rparr>"

definition completion_post :: "pydict \<Rightarrow> upstream" where
  "completion_post payload =
     Answered \<lparr>status_code = 200, resp_text = completion_text, lines = [], broken = None\<rparr>"

definition rate_limited_post :: "pydict \<Rightarrow> upstream" where
  "rate_limited_post payload =
     Answered \<lparr>status_code = 429, resp_text = ''rate limited'', lines = [], broken = None\<rparr>"

section \<open>Substrings\<close>

lemma py_in_Nil: "py_in [] ys"
  by (cases ys) simp_all

lemma py_in_append: "py_in xs (as @ xs @ bs)"
proof (induction as)
  case Nil
  show ?case by (cases xs) (simp_all add: py_in_Nil)
next
  case (Cons a as)
  then show ?case by simp
qed

lemma py_in_split: "py_in xs ys \<Longrightarrow> \<exists>as bs. ys = as @ xs @ bs"
proof (induction ys)
  case Nil
  then show ?case by simp
next
  case (Cons y ys)
  from Cons.prems have "take (length xs) (y # ys) = xs \<or> py_in xs ys" by simp
  then show ?case
  proof
    assume t: "take (length xs) (y # ys) = xs"
    have "y # ys = [] @ xs @ drop (length xs) (y # ys)"
      using append_take_drop_id [of "length xs" "y # ys"] t by simp
    then show ?thesis by blast
  next
    assume "py_in xs ys"
    with Cons.IH obtain as bs where "ys = as @ xs @ bs" by blast
    then have "y # ys = (y # as) @ xs @ bs" by simp
    then show ?thesis by blast
  qed
qed

lemma py_in_iff: "py_in xs ys \<longleftrightarrow> (\<exists>as bs. ys = as @ xs @ bs)"
  using py_in_append py_in_split by metis

section \<open>The resolver\<close>

lemma distinct_MODEL_MAPPING: "distinct (map fst MODEL_MAPPING)"
  unfolding MODEL_MAPPING_def by simp

lemma distinct_MODEL_MAP: "distinct (map fst MODEL_MAP)"
  unfolding MODEL_MAP_def by simp

lemma scan_mapping_first:
  assumes "i < length m"
    and "substring_match r (m ! i)"
    and "\<forall>j<i. \<not> substring_match r (m ! j)"
  shows "scan_mapping (lower r) m = Some (snd (m ! i))"
  using assms
proof (induction m arbitrary: i)
  case Nil
  then show ?case by simp
next
  case (Cons e m)
  obtain k v where e: "e = (k, v)" by (cases e)
  show ?case
  proof (cases i)
    case 0
    with Cons.prems(2) e show ?thesis by (simp add: substring_match_def)
  next
    case (Suc n)
    from Cons.prems(3) Suc have "\<not> substring_match r ((e # m) ! 0)" by blast
    then have no: "\<not> (py_in (lower k) (lower r) \<or> py_in (lower r) (lower k))"
      using e by (simp add: substring_match_def)
    have "\<forall>j<n. \<not> substring_match r (m ! j)"
    proof (intro allI impI)
      fix j assume "j < n"
      then have "Suc j < i" using Suc by simp
      with Cons.prems(3) have "\<not> substring_match r ((e # m) ! Suc j)" by blast
      then show "\<not> substring_match r (m ! j)" by simp
    qed
    moreover have "n < length m" using Cons.prems(1) Suc by simp
    moreover have "substring_match r (m ! n)" using Cons.prems(2) Suc by simp
    ultimately have "scan_mapping (lower r) m = Some (snd (m ! n))"
      using Cons.IH [of n] by blast
    with no e Suc show ?thesis by simp
  qed
qed

text \<open>
  C3, as amended: the two resolvers. In \<open>get_github_model\<close> of openrouter\_to\_github.py,
  (1) an id that is a key of the mapping resolves to exactly the value the mapping gives
  it, and (2) an id that is no key resolves to the value of the first entry, in
  declaration order, whose lowercased key is a substring of the lowercased id or
  contains it: when entry \<open>i\<close> passes that test and no earlier entry does, the result is
  the value of entry \<open>i\<close>. The lookup \<open>MODEL_MAP.get(requested_model, requested_model)\<close> of
  github\_proxy.py does step (1) on its own table and has no step (2): an id that is no
  key of that table goes upstream as it is.
\<close>

theorem resolve_exact_then_first_substring:
  "((r, v) \<in> set MODEL_MAPPING \<longrightarrow> get_github_model r cfg = v) \<and>
   (r \<notin> fst ` set MODEL_MAPPING \<and> i < length MODEL_MAPPING \<and>
    substring_match r (MODEL_MAPPING ! i) \<and>
    (\<forall>j<i. \<not> substring_match r (MODEL_MAPPING ! j))
      \<longrightarrow> get_github_model r cfg = snd (MODEL_MAPPING ! i)) \<and>
   ((r, v) \<in> set MODEL_MAP \<longrightarrow> map_model (JStr r) = Inr (JStr v)) \<and>
   (r \<notin> fst ` set MODEL_MAP \<longrightarrow> map_model (JStr r) = Inr (JStr r))"
proof (intro conjI impI)
  assume "(r, v) \<in> set MODEL_MAPPING"
  then have "map_of MODEL_MAPPING r = Some v"
    using distinct_MODEL_MAPPING by (rule_tac map_of_is_SomeI)
  then show "get_github_model r cfg = v" by (simp add: get_github_model_def)
next
  assume a: "r \<notin> fst ` set MODEL_MAPPING \<and> i < length MODEL_MAPPING \<and>
    substring_match r (MODEL_MAPPING ! i) \<and>
    (\<forall>j<i. \<not> substring_match r (MODEL_MAPPING ! j))"
  then have "map_of MODEL_MAPPING r = None" by (simp add: map_of_eq_None_iff)
  moreover have "scan_mapping (lower r) MODEL_MAPPING = Some (snd (MODEL_MAPPING ! i))"
    using a by (intro scan_mapping_first) simp_all
  ultimately show "get_github_model r cfg = snd (MODEL_MAPPING ! i)"
    by (simp add: get_github_model_def)
next
  assume "(r, v) \<in> set MODEL_MAP"
  then have "map_of MODEL_MAP r = Some v"
    using distinct_MODEL_MAP by (rule_tac map_of_is_SomeI)
  then show "map_model (JStr r) = Inr (JStr v)" by (simp add: map_model_def)
next
  assume "r \<notin> fst ` set MODEL_MAP"
  then have "map_of MODEL_MAP r = None" by (simp add: map_of_eq_None_iff)
  then show "map_model (JStr r) = Inr (JStr r)" by (simp add: map_model_def)
qed

theorem resolve_exact_then_first_substring_witness:
  "(''gpt-4'', ''gpt-4o'') \<in> set MODEL_MAPPING \<and>
   get_github_model ''gpt-4'' load_config = ''gpt-4o'' \<and>
   ''O1-Mini-2024'' \<notin> fst ` set MODEL_MAPPING \<and> (5::nat) < length MODEL_MAPPING \<and>
   substring_match ''O1-Mini-2024'' (MODEL_MAPPING ! 5) \<and>
   substring_match ''O1-Mini-2024'' (MODEL_MAPPING ! 6) \<and>
   get_github_model ''O1-Mini-2024'' load_config = ''o1'' \<and>
   (''gpt-4'', ''gpt-4o'') \<in> set MODEL_MAP \<and>
   map_model (JStr ''gpt-4'') = Inr (JStr ''gpt-4o'') \<and>
   ''O1-Mini-2024'' \<notin> fst ` set MODEL_MAP \<and>
   map_model (JStr ''O1-Mini-2024'') = Inr (JStr ''O1-Mini-2024'')"
proof -
  have a: "(''gpt-4'', ''gpt-4o'') \<in> set MODEL_MAPPING" by (simp add: MODEL_MAPPING_def)
  have b: "''O1-Mini-2024'' \<notin> fst ` set MODEL_MAPPING" by (simp add: MODEL_MAPPING_def)
  have c: "(5::nat) < length MODEL_MAPPING" by (simp add: MODEL_MAPPING_def)
  have d: "substring_match ''O1-Mini-2024'' (MODEL_MAPPING ! 5)" by code_simp
  have d': "substring_match ''O1-Mini-2024'' (MODEL_MAPPING ! 6)" by code_simp
  have n0: "\<not> substring_match ''O1-Mini-2024'' (MODEL_MAPPING ! 0)" by code_simp
  have n1: "\<not> substring_match ''O1-Mini-2024'' (MODEL_MAPPING ! 1)" by code_simp
  have n2: "\<not> substring_match ''O1-Mini-2024'' (MODEL_MAPPING ! 2)" by code_simp
  have n3: "\<not> substring_match ''O1-Mini-2024'' (MODEL_MAPPING ! 3)" by code_simp
  have n4: "\<not> substring_match ''O1-Mini-2024'' (MODEL_MAPPING ! 4)" by code_simp
  have e: "\<forall>j<5. \<not> substring_match ''O1-Mini-2024'' (MODEL_MAPPING ! j)"
  proof (intro allI impI)
    fix j :: nat
    assume "j < 5"
    then have "j = 0 \<or> j = 1 \<or> j = 2 \<or> j = 3 \<or> j = 4" by arith
    with n0 n1 n2 n3 n4 show "\<not> substring_match ''O1-Mini-2024'' (MODEL_MAPPING ! j)" by auto
  qed
  have f: "snd (MODEL_MAPPING ! 5) = ''o1''" by (simp add: MODEL_MAPPING_def)
  have g: "(''gpt-4'', ''gpt-4o'') \<in> set MODEL_MAP" by (simp add: MODEL_MAP_def)
  have h: "''O1-Mini-2024'' \<notin> fst ` set MODEL_MAP" by (simp add: MODEL_MAP_def)
  from a b c d d' e f g h show ?thesis
    using resolve_exact_then_first_substring [of "''gpt-4''" "''gpt-4o''" load_config]
      resolve_exact_then_first_substring [of "''O1-Mini-2024''" _ load_config 5]
    by simp
qed

text \<open>
  The claim of C3 as it was stated fails on the lookup of github\_proxy.py. The id
  \<open>o1-mini-2024\<close> is no key of \<open>MODEL_MAP\<close>; the first entry of that table whose key is a
  substring of it is the fifth, \<open>o1\<close>, so step (2) would resolve it to \<open>o1\<close>; the lookup
  leaves it as it is.
\<close>

theorem proxy_lookup_has_no_substring_step:
  "''o1-mini-2024'' \<notin> fst ` set MODEL_MAP \<and>
   \<not> substring_match ''o1-mini-2024'' (MODEL_MAP ! 0) \<and>
   \<not> substring_match ''o1-mini-2024'' (MODEL_MAP ! 1) \<and>
   \<not> substring_match ''o1-mini-2024'' (MODEL_MAP ! 2) \<and>
   \<not> substring_match ''o1-mini-2024'' (MODEL_MAP ! 3) \<and>
   substring_match ''o1-mini-2024'' (MODEL_MAP ! 4) \<and>
   snd (MODEL_MAP ! 4) = ''o1'' \<and>
   map_model (JStr ''o1-mini-2024'') = Inr (JStr ''o1-mini-2024'') \<and>
   JStr ''o1-mini-2024'' \<noteq> JStr ''o1''"
proof -
  have k: "''o1-mini-2024'' \<notin> fst ` set MODEL_MAP" by (simp add: MODEL_MAP_def)
  have n0: "\<not> substring_match ''o1-mini-2024'' (MODEL_MAP ! 0)" by code_simp
  have n1: "\<not> substring_match ''o1-mini-2024'' (MODEL_MAP ! 1)" by code_simp
  have n2: "\<not> substring_match ''o1-mini-2024'' (MODEL_MAP ! 2)" by code_simp
  have n3: "\<not> substring_match ''o1-mini-2024'' (MODEL_MAP ! 3)" by code_simp
  have y4: "substring_match ''o1-mini-2024'' (MODEL_MAP ! 4)" by code_simp
  have v4: "snd (MODEL_MAP ! 4) = ''o1''" by (simp add: MODEL_MAP_def)
  have m: "map_model (JStr ''o1-mini-2024'') = Inr (JStr ''o1-mini-2024'')"
    by (simp add: map_model_def MODEL_MAP_def)
  from k n0 n1 n2 n3 y4 v4 m show ?thesis by simp
qed

text \<open>
  C4: the empty id. The empty string is a substring of every key, so the loop of
  \<open>get_github_model\<close> returns at its first entry and the fallback
  \<open>requested_model or config.default_model\<close> is never reached: the empty id resolves to
  \<open>gpt-4o\<close> whatever the configured default is, and not to the default
  \<open>claude-4.5-opus\<close> of \<open>load_config\<close>.
\<close>

theorem resolve_empty_id:
  "get_github_model '''' cfg = ''gpt-4o'' \<and>
   get_github_model '''' load_config \<noteq> default_model load_config"
  by (simp add: get_github_model_def MODEL_MAPPING_def lower_def load_config_def)

section \<open>Truncation\<close>

lemma as_dicts_map_JObj: "as_dicts (map JObj msgs) = Inr msgs"
  by (induction msgs) simp_all

lemma truncate_request_tokens:
  assumes "dict_get data ''messages'' (JArr []) = JArr (map JObj msgs)"
    and "dict_get data ''tools'' (JArr []) = JArr tools"
  shows "truncate_request L data budget =
     (if token_estimate L msgs tools \<le> budget then Inr data
      else case truncate_system_prompt L msgs of Inl e \<Rightarrow> Inl e | Inr msgs1 \<Rightarrow>
              let data1 = (if msgs = [] then data
                           else AList.update ''messages'' (JArr (map JObj msgs1)) data);
                  data2 = (if length msgs1 > 6
                           then AList.update ''messages'' (JArr (map JObj (keep_recent msgs1))) data1
                           else data1)
              in if length tools > 10
                 then Inr (AList.update ''tools'' (JArr (take 10 tools)) data2)
                 else Inr data2)"
  using assms
  by (simp add: truncate_request_def as_dicts_map_JObj token_estimate_def estimate_tokens_def
      py_str_def Let_def split: sum.splits)

text \<open>
  C5: a request within the budget is not truncated. For a ChatRequest whose estimate (the
  content length of each message divided by 4 plus 10, the length of each tool's JSON
  text divided by 4) is at most the budget, \<open>truncate_request\<close> returns the request as it
  is, so every message content is unchanged; \<open>chat_completions\<close> calls it with the
  budget 6000.
\<close>

theorem under_budget_unchanged:
  assumes "dict_get data ''messages'' (JArr []) = JArr (map JObj msgs)"
    and "dict_get data ''tools'' (JArr []) = JArr tools"
    and "token_estimate L msgs tools \<le> budget"
  shows "truncate_request L data budget = Inr data"
  using assms by (simp add: truncate_request_tokens)


lemma truncate_system_prompt_text:
  assumes "dict_get m0 ''content'' (JStr '''') = JStr c"
  shows "truncate_system_prompt L (m0 # rest) =
     Inr ((if dict_get m0 ''role'' JNull = JStr ''system'' \<and> 3000 < length c div 4
           then AList.update ''content'' (JStr (take 12000 c @ truncation_marker)) m0
           else m0) # rest)"
  using assms by (simp add: truncate_system_prompt_def estimate_tokens_def py_str_def)

lemma truncate_system_prompt_tl:
  assumes "truncate_system_prompt L msgs = Inr msgs1"
  shows "length msgs1 = length msgs \<and> tl msgs1 = tl msgs"
  using assms
  by (auto simp: truncate_system_prompt_def Let_def split: list.splits if_splits json.splits)

lemma dict_get_update_other:
  "k \<noteq> k' \<Longrightarrow> dict_get (AList.update k v d) k' dflt = dict_get d k' dflt"
  by (simp add: dict_get_def update_conv')

text \<open>
  C6, as amended: a request of eight messages, a system message and seven others, that
  is over the budget of 6000. The output's messages are the system message and then the
  last five of the seven others in their order, where the system message has its content
  cut to its first 12000 characters plus the truncation marker when that content's
  estimate is over 3000, and is unchanged otherwise.
\<close>

theorem eight_messages_keep_system_and_last_five:
  assumes shape: "chat_request data (sys # others) tools"
    and seven: "length others = 7"
    and sys: "dict_get sys ''role'' JNull = JStr ''system''"
    and others: "\<forall>m\<in>set others. dict_get m ''role'' JNull \<noteq> JStr ''system''"
    and content: "dict_get sys ''content'' (JStr '''') = JStr c"
    and over: "6000 < token_estimate L (sys # others) tools"
  shows "\<exists>data'. truncate_request L data 6000 = Inr data' \<and>
           map_of data' ''messages'' =
             Some (JArr (map JObj
               ((if 3000 < length c div 4
                 then AList.update ''content'' (JStr (take 12000 c @ truncation_marker)) sys
                 else sys) # drop 2 others)))"
proof -
  define sys' where "sys' = (if 3000 < length c div 4
                 then AList.update ''content'' (JStr (take 12000 c @ truncation_marker)) sys
                 else sys)"
  have m: "dict_get data ''messages'' (JArr []) = JArr (map JObj (sys # others))"
    and t: "dict_get data ''tools'' (JArr []) = JArr tools"
    using shape by (simp_all add: chat_request_def)
  have s1: "truncate_system_prompt L (sys # others) = Inr (sys' # others)"
    using truncate_system_prompt_text [OF content, of L others] sys by (simp add: sys'_def)
  have role': "dict_get sys' ''role'' JNull = JStr ''system''"
    using sys by (simp add: sys'_def dict_get_update_other)
  have "filter (\<lambda>m. dict_get m ''role'' JNull = JStr ''system'') others = []"
    using others by (simp add: filter_empty_conv)
  then have keep: "keep_recent (sys' # others) = sys' # drop 2 others"
    using seven role' by (simp add: keep_recent_def)
  have "truncate_request L data 6000 =
      (if 10 < length tools
       then Inr (AList.update ''tools'' (JArr (take 10 tools))
              (AList.update ''messages'' (JArr (map JObj (sys' # drop 2 others)))
                (AList.update ''messages'' (JArr (map JObj (sys' # others))) data)))
       else Inr (AList.update ''messages'' (JArr (map JObj (sys' # drop 2 others)))
                (AList.update ''messages'' (JArr (map JObj (sys' # others))) data)))"
    using over seven by (simp add: truncate_request_tokens [OF m t] s1 keep)
  then show ?thesis
    unfolding sys'_def [symmetric] by (auto simp: update_conv')
qed

text \<open>
  C10: a ChatRequest over the budget with more than six messages, one of whose last five
  messages \<open>m\<close> has role system. The output's messages are a block \<open>S\<close> of messages
  with role system followed by the block \<open>R\<close> of the last five messages, and \<open>m\<close> is in
  both blocks.
\<close>

theorem late_system_message_kept_twice:
  assumes shape: "chat_request data msgs tools"
    and long: "6 < length msgs"
    and over: "6000 < token_estimate L msgs tools"
    and late: "m \<in> set (drop (length msgs - 5) msgs)"
    and role: "dict_get m ''role'' JNull = JStr ''system''"
  shows "\<exists>data' S R. truncate_request L data 6000 = Inr data' \<and>
           map_of data' ''messages'' = Some (JArr (map JObj (S @ R))) \<and>
           list_all (\<lambda>x. dict_get x ''role'' JNull = JStr ''system'') S \<and>
           R = drop (length msgs - 5) msgs \<and>
           m \<in> set S \<and> m \<in> set R"
proof -
  have m: "dict_get data ''messages'' (JArr []) = JArr (map JObj msgs)"
    and t: "dict_get data ''tools'' (JArr []) = JArr tools"
    and contents: "list_all (\<lambda>m. is_text (dict_get m ''content'' (JStr ''''))) msgs"
    using shape by (simp_all add: chat_request_def)
  obtain m0 rest where msgs: "msgs = m0 # rest" using long by (cases msgs) auto
  then have ne: "msgs \<noteq> []" by simp
  from contents msgs obtain c where c: "dict_get m0 ''content'' (JStr '''') = JStr c"
    by (auto simp: is_text_def split: json.splits)
  obtain msgs1 where s1: "truncate_system_prompt L msgs = Inr msgs1"
    using truncate_system_prompt_text [OF c, of L rest] msgs by simp
  from truncate_system_prompt_tl [OF s1]
  have len: "length msgs1 = length msgs" and tl: "tl msgs1 = tl msgs" by simp_all
  have "drop (length msgs - 5) msgs1 = drop (length msgs - 5 - 1) (tl msgs1)"
    using long len by (cases msgs1) (simp_all add: drop_Cons')
  also have "\<dots> = drop (length msgs - 5 - 1) (tl msgs)" by (simp add: tl)
  also have "\<dots> = drop (length msgs - 5) msgs"
    using long by (cases msgs) (simp_all add: drop_Cons')
  finally have recent: "drop (length msgs1 - 5) msgs1 = drop (length msgs - 5) msgs"
    by (simp add: len)
  define S where "S = filter (\<lambda>x. dict_get x ''role'' JNull = JStr ''system'') msgs1"
  define R where "R = drop (length msgs - 5) msgs"
  have keep: "keep_recent msgs1 = S @ R"
    by (simp add: keep_recent_def S_def R_def recent)
  have "m \<in> set msgs1" using late recent in_set_dropD by metis
  then have inS: "m \<in> set S" using role by (simp add: S_def)
  have allS: "list_all (\<lambda>x. dict_get x ''role'' JNull = JStr ''system'') S"
    by (simp add: S_def list_all_iff)
  have "truncate_request L data 6000 =
      (if 10 < length tools
       then Inr (AList.update ''tools'' (JArr (take 10 tools))
              (AList.update ''messages'' (JArr (map JObj (S @ R)))
                (AList.update ''messages'' (JArr (map JObj msgs1)) data)))
       else Inr (AList.update ''messages'' (JArr (map JObj (S @ R)))
                (AList.update ''messages'' (JArr (map JObj msgs1)) data)))"
    using over long len ne by (simp add: truncate_request_tokens [OF m t] s1 keep)
  then have "\<exists>data'. truncate_request L data 6000 = Inr data' \<and>
      map_of data' ''messages'' = Some (JArr (map JObj (S @ R)))"
    by (auto simp: update_conv')
  with inS allS late show ?thesis unfolding R_def by blast
qed

section \<open>Truncation at the examples\<close>

theorem under_budget_unchanged_witness:
  "dict_get hello_request ''messages'' (JArr []) = JArr (map JObj [user_message ''Hello'']) \<and>
   dict_get hello_request ''tools'' (JArr []) = JArr [] \<and>
   token_estimate example_lib [user_message ''Hello''] [] = 11 \<and>
   truncate_request example_lib hello_request 6000 = Inr hello_request"
proof -
  have m: "dict_get hello_request ''messages'' (JArr []) = JArr (map JObj [user_message ''Hello''])"
    by (simp add: hello_request_def dict_get_def)
  have t: "dict_get hello_request ''tools'' (JArr []) = JArr []"
    by (simp add: hello_request_def dict_get_def)
  have e: "token_estimate example_lib [user_message ''Hello''] [] = 11"
    by (simp add: token_estimate_def user_message_def dict_get_def py_str_def)
  then have "token_estimate example_lib [user_message ''Hello''] [] \<le> 6000" by simp
  from under_budget_unchanged [OF m t this] m t e show ?thesis by simp
qed

lemma long_shape:
  "chat_request long_system_request (system_message (replicate 24000 (CHR ''x'')) # seven_turns) []"
  by (simp add: chat_request_def long_system_request_def dict_get_def user_message_def
      system_message_def is_text_def seven_turns_def)

lemma long_estimate:
  "token_estimate L (system_message (replicate 24000 (CHR ''x'')) # seven_turns) [] = 6080"
  by (simp add: token_estimate_def user_message_def system_message_def dict_get_def py_str_def
      seven_turns_def)

text \<open>
  The claim of C6 as it was stated fails where the system prompt is long: with a system
  prompt of 24000 characters before seven short turns the estimate is 6080, and the first
  message of the output is not the system message of the request but its truncation.
\<close>

theorem eight_messages_counterexample:
  "token_estimate example_lib
     (system_message (replicate 24000 (CHR ''x'')) # seven_turns) [] = 6080 \<and>
   truncate_request example_lib long_system_request 6000 =
     Inr [(''model'', JStr ''gpt-4o''),
          (''messages'',
             JArr (map JObj
               (system_message (replicate 12000 (CHR ''x'') @ truncation_marker)
                # drop 2 seven_turns)))] \<and>
   system_message (replicate 12000 (CHR ''x'') @ truncation_marker)
     \<noteq> system_message (replicate 24000 (CHR ''x''))"
proof -
  have "length (replicate 12000 (CHR ''x'') @ truncation_marker)
      \<noteq> length (replicate 24000 (CHR ''x''))"
    by (simp add: truncation_marker_def)
  then have ne: "replicate 12000 (CHR ''x'') @ truncation_marker \<noteq> replicate 24000 (CHR ''x'')"
    by metis
  have m: "dict_get long_system_request ''messages'' (JArr [])
      = JArr (map JObj (system_message (replicate 24000 (CHR ''x'')) # seven_turns))"
    and t: "dict_get long_system_request ''tools'' (JArr []) = JArr []"
    using long_shape by (simp_all add: chat_request_def)
  have s: "truncate_system_prompt example_lib
        (system_message (replicate 24000 (CHR ''x'')) # seven_turns)
      = Inr (system_message (replicate 12000 (CHR ''x'') @ truncation_marker) # seven_turns)"
    by (simp add: truncate_system_prompt_def system_message_def dict_get_def estimate_tokens_def
        py_str_def)
  have k: "keep_recent (system_message (replicate 12000 (CHR ''x'') @ truncation_marker) # seven_turns)
      = system_message (replicate 12000 (CHR ''x'') @ truncation_marker) # drop 2 seven_turns"
    by (simp add: keep_recent_def system_message_def user_message_def dict_get_def seven_turns_def)
  have l7: "length seven_turns = 7" by (simp add: seven_turns_def)
  have "truncate_request example_lib long_system_request 6000 =
     Inr [(''model'', JStr ''gpt-4o''),
          (''messages'',
             JArr (map JObj
               (system_message (replicate 12000 (CHR ''x'') @ truncation_marker)
                # drop 2 seven_turns)))]"
    unfolding truncate_request_tokens [OF m t] long_estimate s
    by (simp add: k l7 long_system_request_def)
  with ne long_estimate [of example_lib] show ?thesis by (simp add: system_message_def)
qed


theorem eight_messages_keep_system_and_last_five_witness:
  "chat_request long_system_request
     (system_message (replicate 24000 (CHR ''x'')) # seven_turns) [] \<and>
   length seven_turns = 7 \<and>
   6000 < token_estimate example_lib (system_message (replicate 24000 (CHR ''x'')) # seven_turns) [] \<and>
   (\<exists>data'. truncate_request example_lib long_system_request 6000 = Inr data' \<and>
      map_of data' ''messages'' =
        Some (JArr (map JObj
          (system_message (replicate 12000 (CHR ''x'') @ truncation_marker)
           # drop 2 seven_turns))))"
proof -
  have seven: "length seven_turns = 7" by (simp add: seven_turns_def)
  have sys: "dict_get (system_message (replicate 24000 (CHR ''x''))) ''role'' JNull = JStr ''system''"
    by (simp add: system_message_def dict_get_def)
  have others: "\<forall>m\<in>set seven_turns. dict_get m ''role'' JNull \<noteq> JStr ''system''"
    by (simp add: seven_turns_def user_message_def dict_get_def)
  have content: "dict_get (system_message (replicate 24000 (CHR ''x''))) ''content'' (JStr '''')
      = JStr (replicate 24000 (CHR ''x''))"
    by (simp add: system_message_def dict_get_def)
  have over: "6000 < token_estimate example_lib
      (system_message (replicate 24000 (CHR ''x'')) # seven_turns) []"
    by (simp add: long_estimate)
  have cut: "AList.update ''content'' (JStr (replicate 12000 (CHR ''x'') @ truncation_marker))
       (system_message (replicate 24000 (CHR ''x'')))
      = system_message (replicate 12000 (CHR ''x'') @ truncation_marker)"
    by (simp add: system_message_def)
  from eight_messages_keep_system_and_last_five [OF long_shape seven sys others content over]
    long_shape seven over cut
  show ?thesis by simp
qed

lemma late_shape: "chat_request late_system_request late_system_turns []"
  by (simp add: chat_request_def late_system_request_def dict_get_def user_message_def
      system_message_def is_text_def late_system_turns_def)

theorem late_system_message_kept_twice_witness:
  "chat_request late_system_request late_system_turns [] \<and>
   length late_system_turns = 8 \<and>
   token_estimate example_lib late_system_turns [] = 6082 \<and>
   system_message ''be brief'' \<in> set (drop (length late_system_turns - 5) late_system_turns) \<and>
   (\<exists>data' S R. truncate_request example_lib late_system_request 6000 = Inr data' \<and>
      map_of data' ''messages'' = Some (JArr (map JObj (S @ R))) \<and>
      list_all (\<lambda>x. dict_get x ''role'' JNull = JStr ''system'') S \<and>
      R = drop (length late_system_turns - 5) late_system_turns \<and>
      system_message ''be brief'' \<in> set S \<and> system_message ''be brief'' \<in> set R)"
proof -
  have len: "length late_system_turns = 8" by (simp add: late_system_turns_def)
  have est: "token_estimate example_lib late_system_turns [] = 6082"
    by (simp add: token_estimate_def user_message_def system_message_def dict_get_def py_str_def
        late_system_turns_def)
  have late: "system_message ''be brief''
      \<in> set (drop (length late_system_turns - 5) late_system_turns)"
    by (simp add: late_system_turns_def)
  have role: "dict_get (system_message ''be brief'') ''role'' JNull = JStr ''system''"
    by (simp add: system_message_def dict_get_def)
  have long: "6 < length late_system_turns" using len by simp
  have over: "6000 < token_estimate example_lib late_system_turns []" using est by simp
  from late_system_message_kept_twice [OF late_shape long over late role]
    late_shape len est late
  show ?thesis by simp
qed

section \<open>The stream\<close>

lemma chunk_data_model:
  "map_of (chunk_data chunk_id created model choices parsed) ''model'' = Some model"
  by (simp add: chunk_data_def Let_def update_conv' split: option.splits)

lemma chunk_data_choices:
  "map_of (chunk_data chunk_id created model choices parsed) ''choices'' = Some choices"
  by (simp add: chunk_data_def Let_def update_conv' split: option.splits)

lemma forward_lines_carries:
  "list_all (carries L model) (fst (forward_lines L chunk_id created model ls ending))"
proof (induction L chunk_id created model ls ending rule: forward_lines.induct)
  case (1 L chunk_id created model ending)
  then show ?case by simp
next
  case (2 L chunk_id created model msg rest ending)
  then show ?case by simp
next
  case (3 L chunk_id created model l rest ending)
  then show ?case
    by (auto simp: yield_def carries_def chunk_data_model chunk_data_choices
        split: option.splits json.splits)
qed

lemma generate_carries:
  "list_all (carries L model) (generate L post data model chunk_id created)"
proof -
  have e: "carries L model (sse L (error_chunk chunk_id created model c))" for c
    unfolding carries_def by (rule disjI2) (auto simp: error_chunk_def)
  have d: "carries L model done_frame" by (simp add: carries_def)
  show ?thesis
  proof (cases "post data")
    case (Unreachable msg)
    then show ?thesis by (simp add: generate_def e d)
  next
    case (Answered resp)
    show ?thesis
    proof (cases "status_code resp = 200")
      case False
      with Answered show ?thesis by (simp add: generate_def e d)
    next
      case True
      obtain frames r where fl:
        "forward_lines L chunk_id created model (lines resp) (broken resp) = (frames, r)"
        by (cases "forward_lines L chunk_id created model (lines resp) (broken resp)")
      have "list_all (carries L model) frames"
        using forward_lines_carries [of L model chunk_id created "lines resp" "broken resp"] fl
        by simp
      with Answered True fl show ?thesis
        by (cases r) (simp_all add: generate_def e d)
    qed
  qed
qed

lemma data_line: "startswith (''data: '' @ p) ''data: '' \<and> drop 6 (''data: '' @ p) = p
    \<and> ''data: '' @ p \<noteq> []"
  by (simp add: startswith_def)


lemma forward_lines_forward:
  assumes "json_loads L p = Some (JObj c)"
    and "truthy (dict_get c ''choices'' (JArr []))"
    and "p \<noteq> ''[DONE]''"
  shows "forward_lines L chunk_id created model (Line (''data: '' @ p) # rest) ending
       = yield (sse L (chunk_data chunk_id created model (dict_get c ''choices'' (JArr [])) c))
           (forward_lines L chunk_id created model rest ending)"
  using assms data_line [of p] by simp




lemma example_frame:
  "sse example_lib (chunk_data ''chatcmpl-0'' 0 (JStr ''gpt-4'') (JArr [example_choice])
      [(''choices'', JArr [example_choice])])
   = ''data: '' @ frame_text @ [CHR 0x0A, CHR 0x0A]"
  by (simp add: sse_def chunk_data_def example_lib_def example_dumps_def)


text \<open>
  C2: an upstream that answers 200, sends one chunk and closes the stream without the
  sentinel line. The loop of \<open>generate\<close> ends with the iterator and nothing is yielded
  after it: the only frame is the forwarded chunk, and the stream has no \<open>[DONE]\<close> frame.
  \<open>stream_response\<close> of openrouter\_to\_github.py forwards the same single line, and when the
  iterator raises it yields nothing more and the exception leaves the generator.
\<close>

theorem stream_without_sentinel:
  "generate example_lib no_sentinel_post [] (JStr ''gpt-4'') ''chatcmpl-0'' 0
     = [''data: '' @ frame_text @ [CHR 0x0A, CHR 0x0A]] \<and>
   ''data: '' @ frame_text @ [CHR 0x0A, CHR 0x0A] \<noteq> done_frame \<and>
   router_stream_response [Line (''data: '' @ chunk_text)] None
     = ([''data: '' @ chunk_text @ [CHR 0x0A, CHR 0x0A]], None) \<and>
   router_stream_response [Line (''data: '' @ chunk_text)] (Some ''Connection broken'')
     = ([''data: '' @ chunk_text @ [CHR 0x0A, CHR 0x0A]], Some ''Connection broken'')"
proof -
  have l1: "json_loads example_lib chunk_text = Some (JObj [(''choices'', JArr [example_choice])])"
    by (simp add: example_lib_def example_loads_def)
  have n1: "chunk_text \<noteq> ''[DONE]''" by (simp add: chunk_text_def)
  have c1: "dict_get [(''choices'', JArr [example_choice])] ''choices'' (JArr [])
      = JArr [example_choice]"
    by (simp add: dict_get_def)
  have "forward_lines example_lib ''chatcmpl-0'' 0 (JStr ''gpt-4'')
          [Line (''data: '' @ chunk_text)] None
      = ([''data: '' @ frame_text @ [CHR 0x0A, CHR 0x0A]], None)"
    using forward_lines_forward [OF l1 _ n1, of "''chatcmpl-0''" 0 "JStr ''gpt-4''" "[]" None]
      c1 example_frame
    by (simp add: yield_def)
  then have g: "generate example_lib no_sentinel_post [] (JStr ''gpt-4'') ''chatcmpl-0'' 0
     = [''data: '' @ frame_text @ [CHR 0x0A, CHR 0x0A]]"
    by (simp add: generate_def no_sentinel_post_def)
  have d: "''data: '' @ frame_text @ [CHR 0x0A, CHR 0x0A] \<noteq> done_frame"
    by (simp add: frame_text_def done_frame_def)
  have r: "router_stream_response [Line (''data: '' @ chunk_text)] e
     = ([''data: '' @ chunk_text @ [CHR 0x0A, CHR 0x0A]], e)" for e
    using data_line [of chunk_text] by (simp add: yield_def)
  from g d r show ?thesis by simp
qed


section \<open>The model field\<close>

lemma rewrite_model_result:
  assumes "rewrite_model result model = Inr r"
  shows "case r of JObj d \<Rightarrow> map_of d ''model'' \<in> {None, Some model} | _ \<Rightarrow> True"
  using assms
  by (cases result) (auto simp: has_key_def update_conv' split: if_splits)

lemma non_streaming_reply:
  assumes "non_streaming_response L post data model = Inr reply"
  shows "case reply of
           EventStream frames raised \<Rightarrow> False
         | Jsonify status result \<Rightarrow>
             status = 200 \<and>
             (case result of JObj d \<Rightarrow> map_of d ''model'' \<in> {None, Some model} | _ \<Rightarrow> True)
         | Raw status txt \<Rightarrow> status \<noteq> 200"
proof (cases "post data")
  case (Unreachable msg)
  with assms show ?thesis by (simp add: non_streaming_response_def)
next
  case (Answered resp)
  show ?thesis
  proof (cases "status_code resp = 200")
    case False
    with Answered assms show ?thesis by (auto simp: non_streaming_response_def)
  next
    case True
    with Answered assms obtain result r where
      "rewrite_model result model = Inr r" and "reply = Jsonify 200 r"
      by (auto simp: non_streaming_response_def split: option.splits sum.splits)
    with rewrite_model_result [of result model r] show ?thesis by simp
  qed
qed

lemma prepare_request_model:
  assumes "prepare_request L data = Inr (rm, s, p)"
  shows "rm = dict_get data ''model'' (JStr ''gpt-4o'')"
  using assms by (auto simp: prepare_request_def Let_def split: sum.splits)

lemma non_streaming_rewrites:
  assumes "post payload = Answered resp" and "status_code resp = 200"
    and "json_loads L (resp_text resp) = Some (JObj d)" and "has_key d ''model''"
  shows "non_streaming_response L post payload model
           = Inr (Jsonify 200 (JObj (AList.update ''model'' model d)))"
  using assms by (simp add: non_streaming_response_def)

lemma router_stream_decodable:
  "router_stream_response (map Line ls) ending
     = (map (\<lambda>l. l @ [CHR 0x0A, CHR 0x0A]) (filter (\<lambda>l. startswith l ''data: '') ls), ending)"
proof (induction ls)
  case Nil
  then show ?case by simp
next
  case (Cons l ls)
  have "\<not> startswith [] ''data: ''" by (simp add: startswith_def)
  with Cons show ?case by (auto simp: yield_def)
qed

text \<open>
  C1, as amended: github\_proxy.py shows the caller the model id of the request
  (\<open>data.get("model", "gpt-4o")\<close>), never the id it resolved for the upstream. Whatever the
  upstream sends, every frame of a streaming reply other than the \<open>[DONE]\<close> sentinel is a
  chunk whose \<open>model\<close> is the requested one; a JSON reply has status 200 and, when it is a
  dict with a \<open>model\<close> field, that field is the requested one; and a 200 upstream body
  that has a \<open>model\<close> field is handed to \<open>jsonify\<close> with that field rewritten, the same
  keys and its other fields unchanged. openrouter\_to\_github.py rewrites nothing: for a
  request that does not ask for a stream it returns the document of the upstream's 200
  body as it is, and for one that does it yields every upstream line that starts with
  \<open>data: \<close> as it is, with two line feeds after it, and no other frame.
\<close>

theorem proxy_model_is_requested:
  "(proxy_chat_completions L post chunk_id created (JObj data) = Inr reply \<longrightarrow>
      (case reply of
         EventStream frames raised \<Rightarrow>
           list_all (carries L (dict_get data ''model'' (JStr ''gpt-4o''))) frames
       | Jsonify status result \<Rightarrow>
           status = 200 \<and>
           (case result of
              JObj d \<Rightarrow>
                map_of d ''model'' \<in> {None, Some (dict_get data ''model'' (JStr ''gpt-4o''))}
            | _ \<Rightarrow> True)
       | Raw status txt \<Rightarrow> status \<noteq> 200)) \<and>
   (post payload = Answered resp \<and> status_code resp = 200 \<and>
    json_loads L (resp_text resp) = Some (JObj d) \<and> has_key d ''model'' \<longrightarrow>
      (\<exists>d'. non_streaming_response L post payload model = Inr (Jsonify 200 (JObj d')) \<and>
         map_of d' = (map_of d)(''model'' \<mapsto> model) \<and> map fst d' = map fst d)) \<and>
   (github_token cfg \<noteq> [] \<and> openai_request \<noteq> [] \<and>
    transform_request openai_request cfg = Inr github_request \<and>
    rpost github_request = Answered rresp \<and> status_code rresp = 200 \<and>
    \<not> truthy (dict_get github_request ''stream'' JNull) \<and>
    json_loads L (resp_text rresp) = Some result \<longrightarrow>
      router_chat_completions L cfg rpost (JObj openai_request) = Inr (Jsonify 200 result)) \<and>
   (github_token cfg \<noteq> [] \<and> openai_request \<noteq> [] \<and>
    transform_request openai_request cfg = Inr github_request \<and>
    rpost github_request = Answered rresp \<and> status_code rresp = 200 \<and>
    truthy (dict_get github_request ''stream'' JNull) \<and> lines rresp = map Line ls \<longrightarrow>
      router_chat_completions L cfg rpost (JObj openai_request)
        = Inr (EventStream
                 (map (\<lambda>l. l @ [CHR 0x0A, CHR 0x0A]) (filter (\<lambda>l. startswith l ''data: '') ls))
                 (broken rresp)))"
proof (intro conjI impI)
  assume "github_token cfg \<noteq> [] \<and> openai_request \<noteq> [] \<and>
    transform_request openai_request cfg = Inr github_request \<and>
    rpost github_request = Answered rresp \<and> status_code rresp = 200 \<and>
    \<not> truthy (dict_get github_request ''stream'' JNull) \<and>
    json_loads L (resp_text rresp) = Some result"
  then show "router_chat_completions L cfg rpost (JObj openai_request) = Inr (Jsonify 200 result)"
    by (simp add: router_chat_completions_def)
next
  assume "github_token cfg \<noteq> [] \<and> openai_request \<noteq> [] \<and>
    transform_request openai_request cfg = Inr github_request \<and>
    rpost github_request = Answered rresp \<and> status_code rresp = 200 \<and>
    truthy (dict_get github_request ''stream'' JNull) \<and> lines rresp = map Line ls"
  then show "router_chat_completions L cfg rpost (JObj openai_request)
        = Inr (EventStream
                 (map (\<lambda>l. l @ [CHR 0x0A, CHR 0x0A]) (filter (\<lambda>l. startswith l ''data: '') ls))
                 (broken rresp))"
    by (simp add: router_chat_completions_def router_stream_decodable)
next
  assume a: "proxy_chat_completions L post chunk_id created (JObj data) = Inr reply"
  then obtain rm s p where pr: "prepare_request L data = Inr (rm, s, p)"
    by (auto simp: proxy_chat_completions_def split: sum.splits)
  then have rm: "rm = dict_get data ''model'' (JStr ''gpt-4o'')" by (rule prepare_request_model)
  show "case reply of
         EventStream frames raised \<Rightarrow>
           list_all (carries L (dict_get data ''model'' (JStr ''gpt-4o''))) frames
       | Jsonify status result \<Rightarrow>
           status = 200 \<and>
           (case result of
              JObj d \<Rightarrow>
                map_of d ''model'' \<in> {None, Some (dict_get data ''model'' (JStr ''gpt-4o''))}
            | _ \<Rightarrow> True)
       | Raw status txt \<Rightarrow> status \<noteq> 200"
  proof (cases "truthy s")
    case True
    with a pr have "reply = EventStream (generate L post p rm chunk_id created) None"
      by (simp add: proxy_chat_completions_def proxy_stream_response_def)
    then show ?thesis
      using generate_carries [of L rm post p chunk_id created] unfolding rm by simp
  next
    case False
    with a pr have "non_streaming_response L post p rm = Inr reply"
      by (simp add: proxy_chat_completions_def)
    from non_streaming_reply [OF this] show ?thesis
      unfolding rm by (cases reply) simp_all
  qed
next
  assume b: "post payload = Answered resp \<and> status_code resp = 200 \<and>
    json_loads L (resp_text resp) = Some (JObj d) \<and> has_key d ''model''"
  then have "non_streaming_response L post payload model
           = Inr (Jsonify 200 (JObj (AList.update ''model'' model d)))"
    by (simp add: non_streaming_rewrites)
  moreover have "map_of (AList.update ''model'' model d) = (map_of d)(''model'' \<mapsto> model)"
    by (rule update_conv')
  moreover have "''model'' \<in> set (map fst d)"
    using b by (auto simp: has_key_def map_of_eq_None_iff)
  then have "map fst (AList.update ''model'' model d) = map fst d"
    by (simp add: update_keys)
  ultimately show "\<exists>d'. non_streaming_response L post payload model = Inr (Jsonify 200 (JObj d')) \<and>
         map_of d' = (map_of d)(''model'' \<mapsto> model) \<and> map fst d' = map fst d"
    by blast
qed

lemma hello_stream_reply:
  "proxy_chat_completions example_lib streaming_post ''chatcmpl-0'' 0 (JObj hello_stream_request)
     = Inr (EventStream [''data: '' @ frame_text @ [CHR 0x0A, CHR 0x0A], done_frame] None)"
  by code_simp

lemma router_hello_reply:
  "router_chat_completions example_lib example_config completion_post (JObj hello_request)
     = Inr (Jsonify 200 (JObj [(''model'', JStr ''gpt-4o''), (''choices'', JArr [])]))"
  by code_simp


theorem proxy_model_is_requested_witness:
  "proxy_chat_completions example_lib streaming_post ''chatcmpl-0'' 0 (JObj hello_stream_request)
     = Inr (EventStream [''data: '' @ frame_text @ [CHR 0x0A, CHR 0x0A], done_frame] None) \<and>
   dict_get hello_stream_request ''model'' (JStr ''gpt-4o'') = JStr ''gpt-4'' \<and>
   list_all (carries example_lib (JStr ''gpt-4''))
     [''data: '' @ frame_text @ [CHR 0x0A, CHR 0x0A], done_frame] \<and>
   completion_post [] =
     Answered \<lparr>status_code = 200, resp_text = completion_text, lines = [], broken = None\<rparr> \<and>
   json_loads example_lib completion_text
     = Some (JObj [(''model'', JStr ''gpt-4o''), (''choices'', JArr [])]) \<and>
   has_key [(''model'', JStr ''gpt-4o''), (''choices'', JArr [])] ''model'' \<and>
   (\<exists>d'. non_streaming_response example_lib completion_post [] (JStr ''gpt-4'')
           = Inr (Jsonify 200 (JObj d')) \<and>
         map_of d' ''model'' = Some (JStr ''gpt-4'') \<and> map fst d' = [''model'', ''choices'']) \<and>
   github_token example_config \<noteq> [] \<and> hello_request \<noteq> [] \<and>
   transform_request hello_request example_config
     = Inr [(''messages'', JArr [JObj (user_message ''Hello'')]), (''model'', JStr ''gpt-4o''),
            (''max_tokens'', JInt 64)] \<and>
   router_chat_completions example_lib example_config completion_post (JObj hello_request)
     = Inr (Jsonify 200 (JObj [(''model'', JStr ''gpt-4o''), (''choices'', JArr [])])) \<and>
   transform_request hello_stream_request example_config
     = Inr [(''messages'', JArr [JObj (user_message ''Hello'')]), (''model'', JStr ''gpt-4o''),
            (''max_tokens'', JInt 64), (''stream'', JBool True)] \<and>
   router_chat_completions example_lib example_config streaming_post (JObj hello_stream_request)
     = Inr (EventStream
              [''data: '' @ chunk_text @ [CHR 0x0A, CHR 0x0A],
               ''data: '' @ empty_chunk_text @ [CHR 0x0A, CHR 0x0A],
               ''data: [DONE]'' @ [CHR 0x0A, CHR 0x0A]]
              None)"
proof -
  let ?resp = "\<lparr>status_code = 200, resp_text = completion_text, lines = [], broken = None\<rparr>"
  let ?sresp = "\<lparr>status_code = 200, resp_text = '''',
       lines = [Line (''data: '' @ chunk_text), Line (''data: '' @ empty_chunk_text),
                Line ''data: [DONE]''],
       broken = None\<rparr>"
  let ?doc = "JObj [(''model'', JStr ''gpt-4o''), (''choices'', JArr [])]"
  let ?greq = "[(''messages'', JArr [JObj (user_message ''Hello'')]), (''model'', JStr ''gpt-4o''),
            (''max_tokens'', JInt 64)]"
  let ?sreq = "[(''messages'', JArr [JObj (user_message ''Hello'')]), (''model'', JStr ''gpt-4o''),
            (''max_tokens'', JInt 64), (''stream'', JBool True)]"
  note T = proxy_model_is_requested
    [where L = example_lib and post = streaming_post and chunk_id = "''chatcmpl-0''"
      and created = 0 and data = hello_stream_request
      and reply = "EventStream [''data: '' @ frame_text @ [CHR 0x0A, CHR 0x0A], done_frame] None"]
  note U = proxy_model_is_requested
    [where L = example_lib and post = completion_post and payload = "[]" and resp = ?resp
      and d = "[(''model'', JStr ''gpt-4o''), (''choices'', JArr [])]" and model = "JStr ''gpt-4''"]
  note V = proxy_model_is_requested
    [where L = example_lib and cfg = example_config and openai_request = hello_request
      and github_request = ?greq and rpost = completion_post and rresp = ?resp
      and result = ?doc]
  note W = proxy_model_is_requested
    [where L = example_lib and cfg = example_config and openai_request = hello_stream_request
      and github_request = ?sreq and rpost = streaming_post and rresp = ?sresp
      and ls = "[''data: '' @ chunk_text, ''data: '' @ empty_chunk_text, ''data: [DONE]'']"]
  have m: "dict_get hello_stream_request ''model'' (JStr ''gpt-4o'') = JStr ''gpt-4''"
    by (simp add: hello_stream_request_def hello_request_def dict_get_def)
  have c: "list_all (carries example_lib (JStr ''gpt-4''))
     [''data: '' @ frame_text @ [CHR 0x0A, CHR 0x0A], done_frame]"
    using T [THEN conjunct1] hello_stream_reply m by simp
  have p: "completion_post q = Answered ?resp" for q by (simp add: completion_post_def)
  have sp: "streaming_post q = Answered ?sresp" for q by (simp add: streaming_post_def)
  have l: "json_loads example_lib completion_text = Some ?doc"
    by (simp add: example_lib_def example_loads_def chunk_text_def empty_chunk_text_def
        completion_text_def)
  have k: "has_key [(''model'', JStr ''gpt-4o''), (''choices'', JArr [])] ''model''"
    by (simp add: has_key_def)
  have u: "\<exists>d'. non_streaming_response example_lib completion_post [] (JStr ''gpt-4'')
           = Inr (Jsonify 200 (JObj d')) \<and>
         map_of d' ''model'' = Some (JStr ''gpt-4'') \<and> map fst d' = [''model'', ''choices'']"
    using U [THEN conjunct2, THEN conjunct1] p [of "[]"] l k by auto
  have t: "github_token example_config \<noteq> []" by (simp add: example_config_def load_config_def)
  have h: "hello_request \<noteq> []" by (simp add: hello_request_def)
  have hs: "hello_stream_request \<noteq> []" by (simp add: hello_stream_request_def hello_request_def)
  have tr: "transform_request hello_request example_config = Inr ?greq" by code_simp
  have ts: "transform_request hello_stream_request example_config = Inr ?sreq" by code_simp
  have f1: "\<not> truthy (dict_get ?greq ''stream'' JNull)" by (simp add: dict_get_def)
  have f2: "truthy (dict_get ?sreq ''stream'' JNull)" by (simp add: dict_get_def)
  have v: "router_chat_completions example_lib example_config completion_post (JObj hello_request)
     = Inr (Jsonify 200 ?doc)"
    using V [THEN conjunct2, THEN conjunct2, THEN conjunct1] t h tr p [of ?greq] f1 l by simp
  have d3: "startswith (''data: '' @ x) ''data: ''" for x by (simp add: startswith_def)
  have "startswith ''data: [DONE]'' ''data: ''" by (simp add: startswith_def)
  with d3 [of chunk_text] d3 [of empty_chunk_text]
  have w: "router_chat_completions example_lib example_config streaming_post
      (JObj hello_stream_request)
     = Inr (EventStream
              [''data: '' @ chunk_text @ [CHR 0x0A, CHR 0x0A],
               ''data: '' @ empty_chunk_text @ [CHR 0x0A, CHR 0x0A],
               ''data: [DONE]'' @ [CHR 0x0A, CHR 0x0A]]
              None)"
    using W [THEN conjunct2, THEN conjunct2, THEN conjunct2] t hs ts sp [of ?sreq] f2 by simp
  show ?thesis
    using hello_stream_reply m c p [of "[]"] l k u t h tr v ts w
    by (intro conjI) assumption+
qed

text \<open>
  The claim of C1 as it was stated fails on openrouter\_to\_github.py, which rewrites
  nothing: the caller asks for \<open>gpt-4\<close>, the upstream answers with its own id \<open>gpt-4o\<close>, and
  both the JSON answer and a forwarded data line show \<open>gpt-4o\<close> to the caller.
\<close>

theorem router_shows_upstream_model:
  "dict_get hello_request ''model'' JNull = JStr ''gpt-4'' \<and>
   router_chat_completions example_lib example_config completion_post (JObj hello_request)
     = Inr (Jsonify 200 (JObj [(''model'', JStr ''gpt-4o''), (''choices'', JArr [])])) \<and>
   router_stream_response [Line (''data: '' @ completion_text)] None
     = ([''data: '' @ completion_text @ [CHR 0x0A, CHR 0x0A]], None) \<and>
   json_loads example_lib completion_text
     = Some (JObj [(''model'', JStr ''gpt-4o''), (''choices'', JArr [])]) \<and>
   JStr ''gpt-4o'' \<noteq> JStr ''gpt-4''"
proof -
  have m: "dict_get hello_request ''model'' JNull = JStr ''gpt-4''"
    by (simp add: hello_request_def dict_get_def)
  have r: "router_stream_response [Line (''data: '' @ completion_text)] None
     = ([''data: '' @ completion_text @ [CHR 0x0A, CHR 0x0A]], None)"
    using data_line [of completion_text] by (simp add: yield_def)
  have l: "json_loads example_lib completion_text
     = Some (JObj [(''model'', JStr ''gpt-4o''), (''choices'', JArr [])])"
    by (simp add: example_lib_def example_loads_def chunk_text_def empty_chunk_text_def
        completion_text_def)
  from m router_hello_reply r l show ?thesis by simp
qed

section \<open>Upstream errors\<close>

text \<open>
  C7, as amended: an upstream answer whose status is not 200. \<open>non_streaming_response\<close> of
  github\_proxy.py returns the same status with the upstream body text as it is, and so
  does its \<open>chat_completions\<close> for a request that does not ask for a stream.
  \<open>chat_completions\<close> of openrouter\_to\_github.py returns the same status too, but with a
  body of its own: the upstream text inside an \<open>error\<close> object, after the prefix
  \<open>GitHub Models API error: \<close>, with the type \<open>api_error\<close> and the status as \<open>code\<close>.
\<close>

theorem upstream_error_passthrough:
  "(post payload = Answered resp \<and> status_code resp \<noteq> 200 \<longrightarrow>
      non_streaming_response L post payload model
        = Inr (Raw (status_code resp) (resp_text resp))) \<and>
   (prepare_request L data = Inr (requested, flag, payload) \<and> \<not> truthy flag \<and>
    post payload = Answered resp \<and> status_code resp \<noteq> 200 \<longrightarrow>
      proxy_chat_completions L post chunk_id created (JObj data)
        = Inr (Raw (status_code resp) (resp_text resp))) \<and>
   (github_token cfg \<noteq> [] \<and> openai_request \<noteq> [] \<and>
    transform_request openai_request cfg = Inr github_request \<and>
    post github_request = Answered resp \<and> status_code resp \<noteq> 200 \<longrightarrow>
      router_chat_completions L cfg post (JObj openai_request)
        = Inr (Jsonify (status_code resp)
                 (JObj [(''error'',
                    JObj [(''message'', JStr (''GitHub Models API error: '' @ resp_text resp)),
                          (''type'', JStr ''api_error''),
                          (''code'', JInt (int (status_code resp)))])])))"
proof (intro conjI impI)
  assume "post payload = Answered resp \<and> status_code resp \<noteq> 200"
  then show "non_streaming_response L post payload model
        = Inr (Raw (status_code resp) (resp_text resp))"
    by (simp add: non_streaming_response_def)
next
  assume "prepare_request L data = Inr (requested, flag, payload) \<and> \<not> truthy flag \<and>
    post payload = Answered resp \<and> status_code resp \<noteq> 200"
  then show "proxy_chat_completions L post chunk_id created (JObj data)
        = Inr (Raw (status_code resp) (resp_text resp))"
    by (simp add: proxy_chat_completions_def non_streaming_response_def)
next
  assume "github_token cfg \<noteq> [] \<and> openai_request \<noteq> [] \<and>
    transform_request openai_request cfg = Inr github_request \<and>
    post github_request = Answered resp \<and> status_code resp \<noteq> 200"
  then show "router_chat_completions L cfg post (JObj openai_request)
        = Inr (Jsonify (status_code resp)
                 (JObj [(''error'',
                    JObj [(''message'', JStr (''GitHub Models API error: '' @ resp_text resp)),
                          (''type'', JStr ''api_error''),
                          (''code'', JInt (int (status_code resp)))])]))"
    by (simp add: router_chat_completions_def api_error_body_def)
qed

theorem upstream_error_passthrough_witness:
  "rate_limited_post [] =
     Answered \<lparr>status_code = 429, resp_text = ''rate limited'', lines = [], broken = None\<rparr> \<and>
   non_streaming_response example_lib rate_limited_post [] (JStr ''gpt-4'')
     = Inr (Raw 429 ''rate limited'') \<and>
   prepare_request example_lib hello_request
     = Inr (JStr ''gpt-4'', JBool False,
            [(''model'', JStr ''gpt-4o''),
             (''messages'', JArr [JObj (user_message ''Hello'')]),
             (''max_tokens'', JInt 64),
             (''user'', JStr ''u1'')]) \<and>
   proxy_chat_completions example_lib rate_limited_post ''chatcmpl-0'' 0 (JObj hello_request)
     = Inr (Raw 429 ''rate limited'') \<and>
   github_token example_config \<noteq> [] \<and> hello_request \<noteq> [] \<and>
   transform_request hello_request example_config
     = Inr [(''messages'', JArr [JObj (user_message ''Hello'')]), (''model'', JStr ''gpt-4o''),
            (''max_tokens'', JInt 64)] \<and>
   router_chat_completions example_lib example_config rate_limited_post (JObj hello_request)
     = Inr (Jsonify 429
              (JObj [(''error'',
                 JObj [(''message'', JStr ''GitHub Models API error: rate limited''),
                       (''type'', JStr ''api_error''),
                       (''code'', JInt 429)])]))"
proof -
  let ?resp = "\<lparr>status_code = 429, resp_text = ''rate limited'', lines = [], broken = None\<rparr>"
  let ?greq = "[(''messages'', JArr [JObj (user_message ''Hello'')]), (''model'', JStr ''gpt-4o''),
            (''max_tokens'', JInt 64)]"
  let ?payload = "[(''model'', JStr ''gpt-4o''),
             (''messages'', JArr [JObj (user_message ''Hello'')]),
             (''max_tokens'', JInt 64),
             (''user'', JStr ''u1'')]"
  have p: "rate_limited_post q = Answered ?resp" for q by (simp add: rate_limited_post_def)
  have t: "github_token example_config \<noteq> []" by (simp add: example_config_def load_config_def)
  have h: "hello_request \<noteq> []" by (simp add: hello_request_def)
  have tr: "transform_request hello_request example_config = Inr ?greq" by code_simp
  have pr: "prepare_request example_lib hello_request = Inr (JStr ''gpt-4'', JBool False, ?payload)"
    by code_simp
  note T = upstream_error_passthrough
    [where post = rate_limited_post and payload = "[]" and resp = ?resp and L = example_lib
      and model = "JStr ''gpt-4''" and cfg = example_config and openai_request = hello_request
      and github_request = ?greq]
  note U = upstream_error_passthrough
    [where post = rate_limited_post and payload = ?payload and resp = ?resp and L = example_lib
      and data = hello_request and requested = "JStr ''gpt-4''" and flag = "JBool False"
      and chunk_id = "''chatcmpl-0''" and created = 0]
  have a: "non_streaming_response example_lib rate_limited_post [] (JStr ''gpt-4'')
     = Inr (Raw 429 ''rate limited'')"
    using T [THEN conjunct1] p by simp
  have b: "router_chat_completions example_lib example_config rate_limited_post (JObj hello_request)
     = Inr (Jsonify 429
              (JObj [(''error'',
                 JObj [(''message'', JStr ''GitHub Models API error: rate limited''),
                       (''type'', JStr ''api_error''),
                       (''code'', JInt 429)])]))"
    using T [THEN conjunct2, THEN conjunct2] p t h tr by simp
  have c: "proxy_chat_completions example_lib rate_limited_post ''chatcmpl-0'' 0 (JObj hello_request)
     = Inr (Raw 429 ''rate limited'')"
    using U [THEN conjunct2, THEN conjunct1] p pr by simp
  from p [of "[]"] a pr c t h tr b show ?thesis by simp
qed

text \<open>
  The claim of C7 as it was stated fails on openrouter\_to\_github.py: a 429 whose body is
  \<open>rate limited\<close> reaches the caller as a JSON error object, not as the raw body.
\<close>

theorem router_wraps_upstream_error:
  "router_chat_completions example_lib example_config rate_limited_post (JObj hello_request)
     = Inr (Jsonify 429
              (JObj [(''error'',
                 JObj [(''message'', JStr ''GitHub Models API error: rate limited''),
                       (''type'', JStr ''api_error''),
                       (''code'', JInt 429)])])) \<and>
   Jsonify 429
     (JObj [(''error'',
        JObj [(''message'', JStr ''GitHub Models API error: rate limited''),
              (''type'', JStr ''api_error''),
              (''code'', JInt 429)])])
     \<noteq> Raw 429 ''rate limited''"
proof -
  have "router_chat_completions example_lib example_config rate_limited_post (JObj hello_request)
     = Inr (Jsonify 429
              (JObj [(''error'',
                 JObj [(''message'', JStr ''GitHub Models API error: rate limited''),
                       (''type'', JStr ''api_error''),
                       (''code'', JInt 429)])]))"
    by code_simp
  then show ?thesis by simp
qed

section \<open>The keys of the upstream payload\<close>

lemma map_of_copy_keys:
  "map_of (copy_keys ks req out) k =
     (if k \<in> set ks \<and> map_of req k \<noteq> None then map_of req k else map_of out k)"
proof (induction ks arbitrary: out)
  case Nil
  then show ?case by simp
next
  case (Cons a ks)
  then show ?case by (auto simp: update_conv' split: option.splits)
qed

lemma keys_copy_keys:
  "fst ` set (copy_keys ks req out) = fst ` set out \<union> (set ks \<inter> fst ` set req)"
proof (induction ks arbitrary: out)
  case Nil
  then show ?case by simp
next
  case (Cons a ks)
  show ?case
  proof (cases "map_of req a")
    case None
    then have "a \<notin> fst ` set req" by (simp add: map_of_eq_None_iff)
    with None Cons show ?thesis by auto
  next
    case (Some v)
    then have "a \<in> fst ` set req" by (force dest: map_of_SomeD)
    with Some Cons show ?thesis by (auto simp: dom_update)
  qed
qed

lemma iter_default_key:
  assumes "py_iter (dict_get d k (JArr [])) = Inr elems" and "elems \<noteq> []"
  shows "k \<in> fst ` set d"
proof (rule ccontr)
  assume "k \<notin> fst ` set d"
  then have "map_of d k = None" by (simp add: map_of_eq_None_iff)
  then have "dict_get d k (JArr []) = JArr []" by (simp add: dict_get_def)
  with assms show False by simp
qed

lemma as_dicts_length:
  "as_dicts elems = Inr msgs \<Longrightarrow> length msgs = length elems"
proof (induction elems arbitrary: msgs rule: as_dicts.induct)
  case 1
  then show ?case by simp
next
  case (2 d ms)
  then show ?case by (auto split: sum.splits)
qed simp_all

lemma update_present:
  assumes "k \<in> fst ` set d"
  shows "fst ` set (AList.update k v d) = fst ` set d"
  using assms by (auto simp: dom_update)

lemma truncate_system_prompt_length:
  assumes "truncate_system_prompt L msgs = Inr msgs1"
  shows "length msgs1 = length msgs"
  using assms
  by (auto simp: truncate_system_prompt_def Let_def split: list.splits if_splits json.splits)

lemma truncate_request_keys:
  assumes "truncate_request L d b = Inr d'"
  shows "fst ` set d' = fst ` set d \<and>
         (\<forall>k. k \<noteq> ''messages'' \<and> k \<noteq> ''tools'' \<longrightarrow> map_of d' k = map_of d k)"
proof -
  obtain elems where e: "py_iter (dict_get d ''messages'' (JArr [])) = Inr elems"
    using assms by (auto simp: truncate_request_def Let_def split: sum.splits)
  obtain msgs where m: "as_dicts elems = Inr msgs"
    using assms e by (auto simp: truncate_request_def Let_def split: sum.splits)
  obtain tool_elems where t: "py_iter (dict_get d ''tools'' (JArr [])) = Inr tool_elems"
    using assms e m by (auto simp: truncate_request_def Let_def split: sum.splits)
  have km: "''messages'' \<in> fst ` set d" if "msgs \<noteq> []"
  proof -
    from that as_dicts_length [OF m] have "elems \<noteq> []" by auto
    then show ?thesis by (rule iter_default_key [OF e])
  qed
  have kt: "''tools'' \<in> fst ` set d" if "10 < length tool_elems"
  proof -
    from that have "tool_elems \<noteq> []" by auto
    then show ?thesis by (rule iter_default_key [OF t])
  qed
  show ?thesis
  proof (cases "d' = d")
    case True
    then show ?thesis by simp
  next
    case False
    with assms e m t obtain msgs1 where s: "truncate_system_prompt L msgs = Inr msgs1"
      by (auto simp: truncate_request_def Let_def split: sum.splits if_splits)
    have len: "length msgs1 = length msgs" using s by (rule truncate_system_prompt_length)
    define data1 where "data1 = (if msgs = [] then d
                           else AList.update ''messages'' (JArr (map JObj msgs1)) d)"
    define data2 where "data2 = (if length msgs1 > 6
                           then AList.update ''messages'' (JArr (map JObj (keep_recent msgs1))) data1
                           else data1)"
    have k1: "fst ` set data1 = fst ` set d"
      using km by (auto simp: data1_def dom_update)
    have v1: "k \<noteq> ''messages'' \<Longrightarrow> map_of data1 k = map_of d k" for k
      by (simp add: data1_def update_conv')
    have "6 < length msgs1 \<Longrightarrow> msgs \<noteq> []" using len by auto
    then have k2: "fst ` set data2 = fst ` set d"
      using km k1 by (auto simp: data2_def dom_update)
    have v2: "k \<noteq> ''messages'' \<Longrightarrow> map_of data2 k = map_of d k" for k
      using v1 by (simp add: data2_def update_conv')
    have "d' = data2 \<or> (10 < length tool_elems \<and> (\<exists>ts. d' = AList.update ''tools'' ts data2))"
      using assms e m t s False
      by (auto simp: truncate_request_def Let_def data1_def data2_def split: sum.splits if_splits)
    then show ?thesis
    proof
      assume "d' = data2"
      with k2 v2 show ?thesis by simp
    next
      assume "10 < length tool_elems \<and> (\<exists>ts. d' = AList.update ''tools'' ts data2)"
      then obtain ts where "d' = AList.update ''tools'' ts data2" and "10 < length tool_elems"
        by blast
      with k2 v2 kt show ?thesis by (auto simp: dom_update update_conv')
    qed
  qed
qed


text \<open>
  C8, as amended: the keys of the upstream payload. \<open>transform_request\<close> of
  openrouter\_to\_github.py builds a payload whose keys are \<open>messages\<close>, \<open>model\<close> and the
  allow-listed keys the request has, each with the request's value; every other key of
  the request, \<open>store\<close> among them, is dropped. \<open>chat_completions\<close> of github\_proxy.py
  sends the request itself: its keys are those of the request and \<open>model\<close>, without
  \<open>store\<close>, and every key other than \<open>model\<close>, \<open>store\<close>, \<open>messages\<close> and \<open>tools\<close> keeps its
  value.
\<close>

theorem upstream_payload_keys:
  "(transform_request req cfg = Inr p \<longrightarrow>
      fst ` set p = {''messages'', ''model''} \<union> (set passthrough_keys \<inter> fst ` set req) \<and>
      (\<forall>k\<in>set passthrough_keys. k \<in> fst ` set req \<longrightarrow> map_of p k = map_of req k) \<and>
      ''store'' \<notin> fst ` set p) \<and>
   (prepare_request L data = Inr (rm, s, p') \<longrightarrow>
      fst ` set p' = insert ''model'' (fst ` set data) - {''store''} \<and>
      (\<forall>k. k \<notin> {''model'', ''store'', ''messages'', ''tools''} \<longrightarrow> map_of p' k = map_of data k))"
proof (intro conjI impI)
  assume a: "transform_request req cfg = Inr p"
  then obtain m where p: "p = copy_keys passthrough_keys req
      [(''messages'', dict_get req ''messages'' (JArr [])), (''model'', JStr m)]"
    by (auto simp: transform_request_def split: sum.splits)
  show keys: "fst ` set p = {''messages'', ''model''} \<union> (set passthrough_keys \<inter> fst ` set req)"
    unfolding p keys_copy_keys by simp
  show "\<forall>k\<in>set passthrough_keys. k \<in> fst ` set req \<longrightarrow> map_of p k = map_of req k"
    unfolding p map_of_copy_keys by (auto simp: map_of_eq_None_iff)
  show "''store'' \<notin> fst ` set p"
    unfolding keys by (simp add: passthrough_keys_def)
next
  assume b: "prepare_request L data = Inr (rm, s, p')"
  then obtain gm where
    t: "truncate_request L (AList.delete ''store'' (AList.update ''model'' gm data)) 6000 = Inr p'"
    by (auto simp: prepare_request_def Let_def split: sum.splits)
  note k = truncate_request_keys [OF t]
  have "fst ` set (AList.delete ''store'' (AList.update ''model'' gm data))
      = set (map fst (AList.update ''model'' gm data)) - {''store''}"
    by (simp add: delete_keys flip: set_map)
  also have "\<dots> = fst ` set (AList.update ''model'' gm data) - {''store''}" by simp
  also have "\<dots> = insert ''model'' (fst ` set data) - {''store''}"
    by (simp add: dom_update)
  finally have "fst ` set (AList.delete ''store'' (AList.update ''model'' gm data))
      = insert ''model'' (fst ` set data) - {''store''}" .
  with k show "fst ` set p' = insert ''model'' (fst ` set data) - {''store''}" by simp
  show "\<forall>k. k \<notin> {''model'', ''store'', ''messages'', ''tools''} \<longrightarrow> map_of p' k = map_of data k"
    using k by (simp add: delete_conv' update_conv')
qed

lemma hello_payload:
  "prepare_request example_lib hello_request
     = Inr (JStr ''gpt-4'', JBool False,
            [(''model'', JStr ''gpt-4o''),
             (''messages'', JArr [JObj (user_message ''Hello'')]),
             (''max_tokens'', JInt 64),
             (''user'', JStr ''u1'')])"
  by code_simp

lemma hello_transformed:
  "transform_request hello_request example_config
     = Inr [(''messages'', JArr [JObj (user_message ''Hello'')]), (''model'', JStr ''gpt-4o''),
            (''max_tokens'', JInt 64)]"
  by code_simp

theorem upstream_payload_keys_witness:
  "transform_request hello_request example_config
     = Inr [(''messages'', JArr [JObj (user_message ''Hello'')]), (''model'', JStr ''gpt-4o''),
            (''max_tokens'', JInt 64)] \<and>
   set passthrough_keys \<inter> fst ` set hello_request = {''max_tokens''} \<and>
   ''store'' \<in> fst ` set hello_request \<and>
   ''store'' \<notin> fst ` set [(''messages'', JArr [JObj (user_message ''Hello'')]),
                            (''model'', JStr ''gpt-4o''), (''max_tokens'', JInt 64)] \<and>
   prepare_request example_lib hello_request
     = Inr (JStr ''gpt-4'', JBool False,
            [(''model'', JStr ''gpt-4o''),
             (''messages'', JArr [JObj (user_message ''Hello'')]),
             (''max_tokens'', JInt 64),
             (''user'', JStr ''u1'')]) \<and>
   fst ` set [(''model'', JStr ''gpt-4o''),
              (''messages'', JArr [JObj (user_message ''Hello'')]),
              (''max_tokens'', JInt 64),
              (''user'', JStr ''u1'')]
     = insert ''model'' (fst ` set hello_request) - {''store''}"
proof -
  note T = upstream_payload_keys
    [where req = hello_request and cfg = example_config
      and p = "[(''messages'', JArr [JObj (user_message ''Hello'')]), (''model'', JStr ''gpt-4o''),
            (''max_tokens'', JInt 64)]"
      and L = example_lib and data = hello_request and rm = "JStr ''gpt-4''" and s = "JBool False"
      and p' = "[(''model'', JStr ''gpt-4o''),
             (''messages'', JArr [JObj (user_message ''Hello'')]),
             (''max_tokens'', JInt 64),
             (''user'', JStr ''u1'')]"]
  note A = T [THEN conjunct1, THEN mp, OF hello_transformed]
  note B = T [THEN conjunct2, THEN mp, OF hello_payload]
  have i: "set passthrough_keys \<inter> fst ` set hello_request = {''max_tokens''}"
    by (auto simp: passthrough_keys_def hello_request_def)
  have st: "''store'' \<in> fst ` set hello_request" by (simp add: hello_request_def)
  note a = A [THEN conjunct2, THEN conjunct2]
  note b = B [THEN conjunct1]
  show ?thesis
    using hello_transformed i st a hello_payload b by (intro conjI) assumption+
qed

text \<open>
  The claim of C8 as it was stated fails on github\_proxy.py, which forwards the request
  body itself: of the keys of the request it deletes \<open>store\<close> only, so \<open>user\<close>, which is
  not on the allow-list, is in the upstream payload.
\<close>

theorem proxy_forwards_other_keys:
  "prepare_request example_lib hello_request
     = Inr (JStr ''gpt-4'', JBool False,
            [(''model'', JStr ''gpt-4o''),
             (''messages'', JArr [JObj (user_message ''Hello'')]),
             (''max_tokens'', JInt 64),
             (''user'', JStr ''u1'')]) \<and>
   ''user'' \<notin> set passthrough_keys \<and> ''user'' \<noteq> ''messages'' \<and> ''user'' \<noteq> ''model''"
proof -
  have "prepare_request example_lib hello_request
     = Inr (JStr ''gpt-4'', JBool False,
            [(''model'', JStr ''gpt-4o''),
             (''messages'', JArr [JObj (user_message ''Hello'')]),
             (''max_tokens'', JInt 64),
             (''user'', JStr ''u1'')])"
    by code_simp
  then show ?thesis by (simp add: passthrough_keys_def)
qed

section \<open>Further properties\<close>

lemma forward_lines_ends_done:
  assumes "snd (forward_lines L chunk_id created model ls ending) = None"
    and "ending \<noteq> None \<or> Line ''data: [DONE]'' \<in> set ls"
  shows "fst (forward_lines L chunk_id created model ls ending) \<noteq> [] \<and>
         last (fst (forward_lines L chunk_id created model ls ending)) = done_frame"
  using assms
proof (induction L chunk_id created model ls ending rule: forward_lines.induct)
  case (1 L chunk_id created model ending)
  then show ?case by simp
next
  case (2 L chunk_id created model msg rest ending)
  then show ?case by simp
next
  case (3 L chunk_id created model l rest ending)
  show ?case
  proof (cases "l = ''data: [DONE]''")
    case True
    then show ?thesis by (simp add: startswith_def)
  next
    case False
    with "3.prems"(2) have later: "ending \<noteq> None \<or> Line ''data: [DONE]'' \<in> set rest" by auto
    from "3.prems"(1) "3.IH" later show ?thesis
      by (auto simp: yield_def split: if_splits option.splits json.splits)
  qed
qed

text \<open>
  X1: where the stream of github\_proxy.py does end with the sentinel. When the call to
  the upstream raises, when the upstream's status is not 200, when the line iterator
  raises at its end, or when the upstream sends the line \<open>data: [DONE]\<close>, \<open>generate\<close>
  yields at least one frame and its last frame is the \<open>[DONE]\<close> frame.
\<close>

theorem generate_ends_with_done:
  assumes "post data = Unreachable msg \<or>
           (post data = Answered resp \<and>
            (status_code resp \<noteq> 200 \<or> broken resp \<noteq> None \<or>
             Line ''data: [DONE]'' \<in> set (lines resp)))"
  shows "generate L post data model chunk_id created \<noteq> [] \<and>
         last (generate L post data model chunk_id created) = done_frame"
proof (cases "post data")
  case (Unreachable m)
  then show ?thesis by (simp add: generate_def)
next
  case (Answered r)
  with assms have r: "r = resp" and c: "status_code resp \<noteq> 200 \<or> broken resp \<noteq> None \<or>
             Line ''data: [DONE]'' \<in> set (lines resp)" by auto
  show ?thesis
  proof (cases "status_code resp = 200")
    case False
    with Answered r show ?thesis by (simp add: generate_def)
  next
    case True
    obtain frames e where fl:
      "forward_lines L chunk_id created model (lines resp) (broken resp) = (frames, e)"
      by (cases "forward_lines L chunk_id created model (lines resp) (broken resp)")
    show ?thesis
    proof (cases e)
      case None
      with fl c True
        forward_lines_ends_done [of L chunk_id created model "lines resp" "broken resp"]
      have "frames \<noteq> [] \<and> last frames = done_frame" by simp
      with Answered r True fl None show ?thesis by (simp add: generate_def)
    next
      case (Some m)
      with Answered r True fl show ?thesis by (simp add: generate_def)
    qed
  qed
qed


theorem generate_ends_with_done_witness:
  "rate_limited_post [] =
     Answered \<lparr>status_code = 429, resp_text = ''rate limited'', lines = [], broken = None\<rparr> \<and>
   generate example_lib rate_limited_post [] (JStr ''gpt-4'') ''chatcmpl-0'' 0 \<noteq> [] \<and>
   last (generate example_lib rate_limited_post [] (JStr ''gpt-4'') ''chatcmpl-0'' 0) = done_frame"
proof -
  let ?resp = "\<lparr>status_code = 429, resp_text = ''rate limited'', lines = [], broken = None\<rparr>"
  have p: "rate_limited_post [] = Answered ?resp" by (simp add: rate_limited_post_def)
  then have "rate_limited_post [] = Unreachable [] \<or>
           (rate_limited_post [] = Answered ?resp \<and>
            (status_code ?resp \<noteq> 200 \<or> broken ?resp \<noteq> None \<or>
             Line ''data: [DONE]'' \<in> set (lines ?resp)))" by simp
  from generate_ends_with_done
    [where post = rate_limited_post and data = "[]" and msg = "[]" and resp = ?resp
      and L = example_lib and model = "JStr ''gpt-4''" and chunk_id = "''chatcmpl-0''"
      and created = 0, OF this] p
  show ?thesis by simp
qed

text \<open>
  X2: a ChatRequest over the budget with more than ten tools goes upstream with its
  first ten tools, in their order.
\<close>

theorem tools_cut_to_first_ten:
  assumes shape: "chat_request data msgs tools"
    and many: "10 < length tools"
    and over: "6000 < token_estimate L msgs tools"
  shows "\<exists>data'. truncate_request L data 6000 = Inr data' \<and>
           map_of data' ''tools'' = Some (JArr (take 10 tools))"
proof -
  have m: "dict_get data ''messages'' (JArr []) = JArr (map JObj msgs)"
    and t: "dict_get data ''tools'' (JArr []) = JArr tools"
    and contents: "list_all (\<lambda>m. is_text (dict_get m ''content'' (JStr ''''))) msgs"
    using shape by (simp_all add: chat_request_def)
  have "\<exists>msgs1. truncate_system_prompt L msgs = Inr msgs1"
  proof (cases msgs)
    case Nil
    then show ?thesis by (simp add: truncate_system_prompt_def)
  next
    case (Cons m0 rest)
    with contents obtain c where "dict_get m0 ''content'' (JStr '''') = JStr c"
      by (auto simp: is_text_def split: json.splits)
    from truncate_system_prompt_text [OF this, of L rest] Cons show ?thesis by simp
  qed
  then obtain msgs1 where s: "truncate_system_prompt L msgs = Inr msgs1" by blast
  show ?thesis
    using over many by (simp add: truncate_request_tokens [OF m t] s Let_def update_conv')
qed

theorem tools_cut_to_first_ten_witness:
  "chat_request tools_request [user_message (replicate 24000 (CHR ''x''))]
     (replicate 12 example_tool) \<and>
   token_estimate example_lib [user_message (replicate 24000 (CHR ''x''))]
     (replicate 12 example_tool) = 6070 \<and>
   (\<exists>data'. truncate_request example_lib tools_request 6000 = Inr data' \<and>
      map_of data' ''tools'' = Some (JArr (replicate 10 example_tool)))"
proof -
  have shape: "chat_request tools_request [user_message (replicate 24000 (CHR ''x''))]
      (replicate 12 example_tool)"
    by (simp add: chat_request_def tools_request_def dict_get_def user_message_def is_text_def)
  have d: "length (json_dumps example_lib example_tool) div 4 = 5"
    by (simp add: example_lib_def example_dumps_def example_tool_def tool_text_def)
  have est: "token_estimate example_lib [user_message (replicate 24000 (CHR ''x''))]
      (replicate 12 example_tool) = 6070"
    by (simp add: token_estimate_def user_message_def dict_get_def py_str_def map_replicate_const
        sum_list_replicate d)
  have many: "10 < length (replicate 12 example_tool)" by simp
  have over: "6000 < token_estimate example_lib
      [user_message (replicate 24000 (CHR ''x''))] (replicate 12 example_tool)" using est by simp
  from tools_cut_to_first_ten [OF shape many over] shape est show ?thesis by simp
qed

lemma scan_mapping_none:
  "list_all (\<lambda>e. \<not> substring_match r e) m \<Longrightarrow> scan_mapping (lower r) m = None"
  by (induction m) (auto simp: substring_match_def)

text \<open>
  X3: the fallback of the resolver. A non-empty id that is no key of the mapping and
  that no entry matches as a substring resolves to itself.
\<close>

theorem resolve_fallback:
  assumes "r \<notin> fst ` set MODEL_MAPPING"
    and "list_all (\<lambda>e. \<not> substring_match r e) MODEL_MAPPING"
    and "r \<noteq> []"
  shows "get_github_model r cfg = r"
proof -
  have "map_of MODEL_MAPPING r = None" using assms(1) by (simp add: map_of_eq_None_iff)
  with scan_mapping_none [OF assms(2)] assms(3) show ?thesis
    by (simp add: get_github_model_def)
qed

theorem resolve_fallback_witness:
  "''qwen-2'' \<notin> fst ` set MODEL_MAPPING \<and>
   list_all (\<lambda>e. \<not> substring_match ''qwen-2'' e) MODEL_MAPPING \<and>
   get_github_model ''qwen-2'' load_config = ''qwen-2''"
proof -
  have a: "''qwen-2'' \<notin> fst ` set MODEL_MAPPING" by (simp add: MODEL_MAPPING_def)
  have b: "list_all (\<lambda>e. \<not> substring_match ''qwen-2'' e) MODEL_MAPPING" by code_simp
  have c: "''qwen-2'' \<noteq> []" by simp
  from resolve_fallback [OF a b c, of load_config] a b show ?thesis by simp
qed

end
